theory Spec2Isabelle
  imports Main "HOL-Library.Word"
begin

section \<open>The host and the availability check\<close>

text \<open>
  Every wrapper of \<^verbatim>\<open>accelerate_wrapper.c\<close> has the same body:
  \<^verbatim>\<open>
  if(__builtin_available(macos 13.3, *)){
      sgeev_(jobvl, jobvr, n, a, lda, wr, wi, vl, ldvl, vr, ldvr, work, lwork, info);
  } else {
      sgeev$LEGACY(jobvl, jobvr, n, a, lda, wr, wi, vl, ldvl, vr, ldvr, work, lwork, info);
  }
  \<close>
  The condition asks the running operating system for its version. The host is therefore
  an input of the model: the platform the process runs on and the version of its
  operating system, as major, minor and patch number.
\<close>

datatype platform = MacOS | OtherOS

type_synonym version = "nat \<times> nat \<times> nat"

record host =
  os :: platform
  os_version :: version

text \<open>
  Modelled from the spec: the compiler builtin \<^verbatim>\<open>__builtin_available\<close> is not
  part of the sources; the spec describes it as the predicate "host OS version \<ge> threshold
  version". \<open>version_at_least running required\<close> compares two versions component by
  component. \<open>builtin_available v h\<close> stands for
  \<^verbatim>\<open>__builtin_available(macos v, *)\<close>: the clause \<^verbatim>\<open>macos v\<close> compares the
  version of a macOS host with \<open>v\<close>, and the clause \<^verbatim>\<open>*\<close> lets every platform
  that is not named pass. The threshold \<^verbatim>\<open>13.3\<close> of the source is the version
  \<open>(13, 3, 0)\<close>.
\<close>

fun version_at_least :: "version \<Rightarrow> version \<Rightarrow> bool" where
  "version_at_least (major, minor, patch) (major', minor', patch') =
     (major' < major \<or>
      (major' = major \<and> (minor' < minor \<or> (minor' = minor \<and> patch' \<le> patch))))"

definition builtin_available :: "version \<Rightarrow> host \<Rightarrow> bool" where
  "builtin_available macos_min h =
     (case os h of
        MacOS \<Rightarrow> version_at_least (os_version h) macos_min
      | OtherOS \<Rightarrow> True)"

section \<open>Memory, the numerical backend and calls into it\<close>

text \<open>
  Every parameter of every wrapper is a pointer (\<^verbatim>\<open>char *jobvl\<close>,
  \<^verbatim>\<open>fortran_int *n\<close>, \<^verbatim>\<open>float a[]\<close>, ...), so an argument is an address and the
  buffers live in a byte-addressed memory. A value returned directly by a C function is
  kept as the raw bits of its type.
\<close>

type_synonym addr = nat
type_synonym memory = "addr \<Rightarrow> 8 word"

datatype cvalue = IntVal int | FloatBits "32 word" | DoubleBits "64 word"

text \<open>The two symbols of a routine: \<^verbatim>\<open>sgeev_\<close> is \<open>Modern\<close>,
  \<^verbatim>\<open>sgeev$LEGACY\<close> is \<open>Legacy\<close>.\<close>

datatype abi = Modern | Legacy

datatype routine =
    SGEEV | DGEEV | CGEEV | ZGEEV | SSYEVD | DSYEVD
  | CHEEVD | ZHEEVD | SGELSD | DGELSD | CGELSD | ZGELSD
  | DGEQRF | ZGEQRF | DORGQR | ZUNGQR | SGESV | DGESV
  | CGESV | ZGESV | SGETRF | DGETRF | CGETRF | ZGETRF
  | SPOTRF | DPOTRF | CPOTRF | ZPOTRF | SGESDD | DGESDD
  | CGESDD | ZGESDD | SPOTRS | DPOTRS | CPOTRS | ZPOTRS
  | SPOTRI | DPOTRI | CPOTRI | ZPOTRI | SCOPY | DCOPY
  | CCOPY | ZCOPY | SDOT | DDOT | CDOTU | ZDOTU
  | CDOTC | ZDOTC | SGEMM | DGEMM | CGEMM | ZGEMM


text \<open>
  The entry points belong to the vendor library, which is outside the sources: the backend
  is a parameter of the model. An entry point receives the argument vector and the memory,
  and gives back the memory as it left it together with its direct return value
  (\<open>None\<close> for an entry point declared \<^verbatim>\<open>void\<close>). Entry points are taken to
  return.
\<close>

type_synonym entry_point = "addr list \<Rightarrow> memory \<Rightarrow> memory \<times> cvalue option"
type_synonym backend = "abi \<Rightarrow> routine \<Rightarrow> entry_point"

text \<open>
  The source file declares no global and no static variable, so the state a wrapper works
  on is the memory alone. The field \<open>calls\<close> is instrumentation: the log of the entry
  points that ran, each with the argument vector it received, oldest first.
\<close>

record state =
  mem :: memory
  calls :: "(abi \<times> routine \<times> addr list) list"

definition call :: "backend \<Rightarrow> abi \<Rightarrow> routine \<Rightarrow> addr list \<Rightarrow> state \<Rightarrow> state \<times> cvalue option" where
  "call lib abi r args st =
     (let out = lib abi r args (mem st)
      in (\<lparr>mem = fst out, calls = calls st @ [(abi, r, args)]\<rparr>, snd out))"

text \<open>The expression statement \<^verbatim>\<open>f(args);\<close>: the call runs and its value is
  discarded.\<close>

definition call_stmt :: "backend \<Rightarrow> abi \<Rightarrow> routine \<Rightarrow> addr list \<Rightarrow> state \<Rightarrow> state" where
  "call_stmt lib abi r args st = fst (call lib abi r args st)"

text \<open>Control reaches the closing brace of a function whose return type is not
  \<^verbatim>\<open>void\<close>: no \<^verbatim>\<open>return\<close> statement ran, so no value is handed to the
  caller.\<close>

definition end_without_return :: "state \<Rightarrow> state \<times> cvalue option" where
  "end_without_return st = (st, None)"

section \<open>The signatures of the wrappers\<close>

text \<open>
  \<open>routine_name r\<close> is the name shared by the wrapper \<^verbatim>\<open>accelerate_<name>\<close> and
  its two entry points. \<open>return_type\<close> and \<open>params\<close> are the declared return type and
  the parameter list of the wrapper, in the order of the source; an array parameter
  \<^verbatim>\<open>float a[]\<close> has the type \<^verbatim>\<open>float *\<close>.
\<close>

datatype ctype =
    C_void | C_char | C_fortran_int | C_float | C_double
  | C_f2c_complex | C_f2c_doublecomplex | C_fortran_doublecomplex
  | C_ptr ctype

definition routine_name :: "routine \<Rightarrow> string" where
  "routine_name r = (case r of
      SGEEV \<Rightarrow> ''sgeev''
    | DGEEV \<Rightarrow> ''dgeev''
    | CGEEV \<Rightarrow> ''cgeev''
    | ZGEEV \<Rightarrow> ''zgeev''
    | SSYEVD \<Rightarrow> ''ssyevd''
    | DSYEVD \<Rightarrow> ''dsyevd''
    | CHEEVD \<Rightarrow> ''cheevd''
    | ZHEEVD \<Rightarrow> ''zheevd''
    | SGELSD \<Rightarrow> ''sgelsd''
    | DGELSD \<Rightarrow> ''dgelsd''
    | CGELSD \<Rightarrow> ''cgelsd''
    | ZGELSD \<Rightarrow> ''zgelsd''
    | DGEQRF \<Rightarrow> ''dgeqrf''
    | ZGEQRF \<Rightarrow> ''zgeqrf''
    | DORGQR \<Rightarrow> ''dorgqr''
    | ZUNGQR \<Rightarrow> ''zungqr''
    | SGESV \<Rightarrow> ''sgesv''
    | DGESV \<Rightarrow> ''dgesv''
    | CGESV \<Rightarrow> ''cgesv''
    | ZGESV \<Rightarrow> ''zgesv''
    | SGETRF \<Rightarrow> ''sgetrf''
    | DGETRF \<Rightarrow> ''dgetrf''
    | CGETRF \<Rightarrow> ''cgetrf''
    | ZGETRF \<Rightarrow> ''zgetrf''
    | SPOTRF \<Rightarrow> ''spotrf''
    | DPOTRF \<Rightarrow> ''dpotrf''
    | CPOTRF \<Rightarrow> ''cpotrf''
    | ZPOTRF \<Rightarrow> ''zpotrf''
    | SGESDD \<Rightarrow> ''sgesdd''
    | DGESDD \<Rightarrow> ''dgesdd''
    | CGESDD \<Rightarrow> ''cgesdd''
    | ZGESDD \<Rightarrow> ''zgesdd''
    | SPOTRS \<Rightarrow> ''spotrs''
    | DPOTRS \<Rightarrow> ''dpotrs''
    | CPOTRS \<Rightarrow> ''cpotrs''
    | ZPOTRS \<Rightarrow> ''zpotrs''
    | SPOTRI \<Rightarrow> ''spotri''
    | DPOTRI \<Rightarrow> ''dpotri''
    | CPOTRI \<Rightarrow> ''cpotri''
    | ZPOTRI \<Rightarrow> ''zpotri''
    | SCOPY \<Rightarrow> ''scopy''
    | DCOPY \<Rightarrow> ''dcopy''
    | CCOPY \<Rightarrow> ''ccopy''
    | ZCOPY \<Rightarrow> ''zcopy''
    | SDOT \<Rightarrow> ''sdot''
    | DDOT \<Rightarrow> ''ddot''
    | CDOTU \<Rightarrow> ''cdotu''
    | ZDOTU \<Rightarrow> ''zdotu''
    | CDOTC \<Rightarrow> ''cdotc''
    | ZDOTC \<Rightarrow> ''zdotc''
    | SGEMM \<Rightarrow> ''sgemm''
    | DGEMM \<Rightarrow> ''dgemm''
    | CGEMM \<Rightarrow> ''cgemm''
    | ZGEMM \<Rightarrow> ''zgemm'')"

definition all_routines :: "routine list" where
  "all_routines =
     [SGEEV, DGEEV, CGEEV, ZGEEV, SSYEVD, DSYEVD,
      CHEEVD, ZHEEVD, SGELSD, DGELSD, CGELSD, ZGELSD,
      DGEQRF, ZGEQRF, DORGQR, ZUNGQR, SGESV, DGESV,
      CGESV, ZGESV, SGETRF, DGETRF, CGETRF, ZGETRF,
      SPOTRF, DPOTRF, CPOTRF, ZPOTRF, SGESDD, DGESDD,
      CGESDD, ZGESDD, SPOTRS, DPOTRS, CPOTRS, ZPOTRS,
      SPOTRI, DPOTRI, CPOTRI, ZPOTRI, SCOPY, DCOPY,
      CCOPY, ZCOPY, SDOT, DDOT, CDOTU, ZDOTU,
      CDOTC, ZDOTC, SGEMM, DGEMM, CGEMM, ZGEMM]"

definition return_type :: "routine \<Rightarrow> ctype" where
  "return_type r = (case r of
      SGEEV \<Rightarrow> C_void
    | DGEEV \<Rightarrow> C_void
    | CGEEV \<Rightarrow> C_void
    | ZGEEV \<Rightarrow> C_void
    | SSYEVD \<Rightarrow> C_void
    | DSYEVD \<Rightarrow> C_void
    | CHEEVD \<Rightarrow> C_void
    | ZHEEVD \<Rightarrow> C_void
    | SGELSD \<Rightarrow> C_void
    | DGELSD \<Rightarrow> C_void
    | CGELSD \<Rightarrow> C_void
    | ZGELSD \<Rightarrow> C_void
    | DGEQRF \<Rightarrow> C_void
    | ZGEQRF \<Rightarrow> C_void
    | DORGQR \<Rightarrow> C_void
    | ZUNGQR \<Rightarrow> C_void
    | SGESV \<Rightarrow> C_void
    | DGESV \<Rightarrow> C_void
    | CGESV \<Rightarrow> C_void
    | ZGESV \<Rightarrow> C_void
    | SGETRF \<Rightarrow> C_fortran_int
    | DGETRF \<Rightarrow> C_fortran_int
    | CGETRF \<Rightarrow> C_fortran_int
    | ZGETRF \<Rightarrow> C_fortran_int
    | SPOTRF \<Rightarrow> C_void
    | DPOTRF \<Rightarrow> C_void
    | CPOTRF \<Rightarrow> C_void
    | ZPOTRF \<Rightarrow> C_void
    | SGESDD \<Rightarrow> C_void
    | DGESDD \<Rightarrow> C_void
    | CGESDD \<Rightarrow> C_void
    | ZGESDD \<Rightarrow> C_void
    | SPOTRS \<Rightarrow> C_void
    | DPOTRS \<Rightarrow> C_void
    | CPOTRS \<Rightarrow> C_void
    | ZPOTRS \<Rightarrow> C_void
    | SPOTRI \<Rightarrow> C_void
    | DPOTRI \<Rightarrow> C_void
    | CPOTRI \<Rightarrow> C_void
    | ZPOTRI \<Rightarrow> C_void
    | SCOPY \<Rightarrow> C_fortran_int
    | DCOPY \<Rightarrow> C_fortran_int
    | CCOPY \<Rightarrow> C_fortran_int
    | ZCOPY \<Rightarrow> C_fortran_int
    | SDOT \<Rightarrow> C_float
    | DDOT \<Rightarrow> C_double
    | CDOTU \<Rightarrow> C_void
    | ZDOTU \<Rightarrow> C_void
    | CDOTC \<Rightarrow> C_void
    | ZDOTC \<Rightarrow> C_void
    | SGEMM \<Rightarrow> C_void
    | DGEMM \<Rightarrow> C_void
    | CGEMM \<Rightarrow> C_void
    | ZGEMM \<Rightarrow> C_void)"

definition params :: "routine \<Rightarrow> (ctype \<times> string) list" where
  "params r = (case r of
      SGEEV \<Rightarrow>
        [(C_ptr C_char, ''jobvl''), (C_ptr C_char, ''jobvr''),
         (C_ptr C_fortran_int, ''n''), (C_ptr C_float, ''a''),
         (C_ptr C_fortran_int, ''lda''), (C_ptr C_float, ''wr''), (C_ptr C_float, ''wi''),
         (C_ptr C_float, ''vl''), (C_ptr C_fortran_int, ''ldvl''),
         (C_ptr C_float, ''vr''), (C_ptr C_fortran_int, ''ldvr''),
         (C_ptr C_float, ''work''), (C_ptr C_fortran_int, ''lwork''),
         (C_ptr C_fortran_int, ''info'')]
    | DGEEV \<Rightarrow>
        [(C_ptr C_char, ''jobvl''), (C_ptr C_char, ''jobvr''),
         (C_ptr C_fortran_int, ''n''), (C_ptr C_double, ''a''),
         (C_ptr C_fortran_int, ''lda''), (C_ptr C_double, ''wr''),
         (C_ptr C_double, ''wi''), (C_ptr C_double, ''vl''),
         (C_ptr C_fortran_int, ''ldvl''), (C_ptr C_double, ''vr''),
         (C_ptr C_fortran_int, ''ldvr''), (C_ptr C_double, ''work''),
         (C_ptr C_fortran_int, ''lwork''), (C_ptr C_fortran_int, ''info'')]
    | CGEEV \<Rightarrow>
        [(C_ptr C_char, ''jobvl''), (C_ptr C_char, ''jobvr''),
         (C_ptr C_fortran_int, ''n''), (C_ptr C_f2c_complex, ''a''),
         (C_ptr C_fortran_int, ''lda''), (C_ptr C_f2c_complex, ''w''),
         (C_ptr C_f2c_complex, ''vl''), (C_ptr C_fortran_int, ''ldvl''),
         (C_ptr C_f2c_complex, ''vr''), (C_ptr C_fortran_int, ''ldvr''),
         (C_ptr C_f2c_complex, ''work''), (C_ptr C_fortran_int, ''lwork''),
         (C_ptr C_float, ''rwork''), (C_ptr C_fortran_int, ''info'')]
    | ZGEEV \<Rightarrow>
        [(C_ptr C_char, ''jobvl''), (C_ptr C_char, ''jobvr''),
         (C_ptr C_fortran_int, ''n''), (C_ptr C_f2c_doublecomplex, ''a''),
         (C_ptr C_fortran_int, ''lda''), (C_ptr C_f2c_doublecomplex, ''w''),
         (C_ptr C_f2c_doublecomplex, ''vl''), (C_ptr C_fortran_int, ''ldvl''),
         (C_ptr C_f2c_doublecomplex, ''vr''), (C_ptr C_fortran_int, ''ldvr''),
         (C_ptr C_f2c_doublecomplex, ''work''), (C_ptr C_fortran_int, ''lwork''),
         (C_ptr C_double, ''rwork''), (C_ptr C_fortran_int, ''info'')]
    | SSYEVD \<Rightarrow>
        [(C_ptr C_char, ''jobz''), (C_ptr C_char, ''uplo''), (C_ptr C_fortran_int, ''n''),
         (C_ptr C_float, ''a''), (C_ptr C_fortran_int, ''lda''), (C_ptr C_float, ''w''),
         (C_ptr C_float, ''work''), (C_ptr C_fortran_int, ''lwork''),
         (C_ptr C_fortran_int, ''iwork''), (C_ptr C_fortran_int, ''liwork''),
         (C_ptr C_fortran_int, ''info'')]
    | DSYEVD \<Rightarrow>
        [(C_ptr C_char, ''jobz''), (C_ptr C_char, ''uplo''), (C_ptr C_fortran_int, ''n''),
         (C_ptr C_double, ''a''), (C_ptr C_fortran_int, ''lda''), (C_ptr C_double, ''w''),
         (C_ptr C_double, ''work''), (C_ptr C_fortran_int, ''lwork''),
         (C_ptr C_fortran_int, ''iwork''), (C_ptr C_fortran_int, ''liwork''),
         (C_ptr C_fortran_int, ''info'')]
    | CHEEVD \<Rightarrow>
        [(C_ptr C_char, ''jobz''), (C_ptr C_char, ''uplo''), (C_ptr C_fortran_int, ''n''),
         (C_ptr C_f2c_complex, ''a''), (C_ptr C_fortran_int, ''lda''),
         (C_ptr C_float, ''w''), (C_ptr C_f2c_complex, ''work''),
         (C_ptr C_fortran_int, ''lwork''), (C_ptr C_float, ''rwork''),
         (C_ptr C_fortran_int, ''lrwork''), (C_ptr C_fortran_int, ''iwork''),
         (C_ptr C_fortran_int, ''liwork''), (C_ptr C_fortran_int, ''info'')]
    | ZHEEVD \<Rightarrow>
        [(C_ptr C_char, ''jobz''), (C_ptr C_char, ''uplo''), (C_ptr C_fortran_int, ''n''),
         (C_ptr C_f2c_doublecomplex, ''a''), (C_ptr C_fortran_int, ''lda''),
         (C_ptr C_double, ''w''), (C_ptr C_f2c_doublecomplex, ''work''),
         (C_ptr C_fortran_int, ''lwork''), (C_ptr C_double, ''rwork''),
         (C_ptr C_fortran_int, ''lrwork''), (C_ptr C_fortran_int, ''iwork''),
         (C_ptr C_fortran_int, ''liwork''), (C_ptr C_fortran_int, ''info'')]
    | SGELSD \<Rightarrow>
        [(C_ptr C_fortran_int, ''m''), (C_ptr C_fortran_int, ''n''),
         (C_ptr C_fortran_int, ''nrhs''), (C_ptr C_float, ''a''),
         (C_ptr C_fortran_int, ''lda''), (C_ptr C_float, ''b''),
         (C_ptr C_fortran_int, ''ldb''), (C_ptr C_float, ''s''),
         (C_ptr C_float, ''rcond''), (C_ptr C_fortran_int, ''rank''),
         (C_ptr C_float, ''work''), (C_ptr C_fortran_int, ''lwork''),
         (C_ptr C_fortran_int, ''iwork''), (C_ptr C_fortran_int, ''info'')]
    | DGELSD \<Rightarrow>
        [(C_ptr C_fortran_int, ''m''), (C_ptr C_fortran_int, ''n''),
         (C_ptr C_fortran_int, ''nrhs''), (C_ptr C_double, ''a''),
         (C_ptr C_fortran_int, ''lda''), (C_ptr C_double, ''b''),
         (C_ptr C_fortran_int, ''ldb''), (C_ptr C_double, ''s''),
         (C_ptr C_double, ''rcond''), (C_ptr C_fortran_int, ''rank''),
         (C_ptr C_double, ''work''), (C_ptr C_fortran_int, ''lwork''),
         (C_ptr C_fortran_int, ''iwork''), (C_ptr C_fortran_int, ''info'')]
    | CGELSD \<Rightarrow>
        [(C_ptr C_fortran_int, ''m''), (C_ptr C_fortran_int, ''n''),
         (C_ptr C_fortran_int, ''nrhs''), (C_ptr C_f2c_complex, ''a''),
         (C_ptr C_fortran_int, ''lda''), (C_ptr C_f2c_complex, ''b''),
         (C_ptr C_fortran_int, ''ldb''), (C_ptr C_float, ''s''),
         (C_ptr C_float, ''rcond''), (C_ptr C_fortran_int, ''rank''),
         (C_ptr C_f2c_complex, ''work''), (C_ptr C_fortran_int, ''lwork''),
         (C_ptr C_float, ''rwork''), (C_ptr C_fortran_int, ''iwork''),
         (C_ptr C_fortran_int, ''info'')]
    | ZGELSD \<Rightarrow>
        [(C_ptr C_fortran_int, ''m''), (C_ptr C_fortran_int, ''n''),
         (C_ptr C_fortran_int, ''nrhs''), (C_ptr C_fortran_doublecomplex, ''a''),
         (C_ptr C_fortran_int, ''lda''), (C_ptr C_fortran_doublecomplex, ''b''),
         (C_ptr C_fortran_int, ''ldb''), (C_ptr C_double, ''s''),
         (C_ptr C_double, ''rcond''), (C_ptr C_fortran_int, ''rank''),
         (C_ptr C_fortran_doublecomplex, ''work''), (C_ptr C_fortran_int, ''lwork''),
         (C_ptr C_double, ''rwork''), (C_ptr C_fortran_int, ''iwork''),
         (C_ptr C_fortran_int, ''info'')]
    | DGEQRF \<Rightarrow>
        [(C_ptr C_fortran_int, ''m''), (C_ptr C_fortran_int, ''n''),
         (C_ptr C_double, ''a''), (C_ptr C_fortran_int, ''lda''),
         (C_ptr C_double, ''tau''), (C_ptr C_double, ''work''),
         (C_ptr C_fortran_int, ''lwork''), (C_ptr C_fortran_int, ''info'')]
    | ZGEQRF \<Rightarrow>
        [(C_ptr C_fortran_int, ''m''), (C_ptr C_fortran_int, ''n''),
         (C_ptr C_f2c_doublecomplex, ''a''), (C_ptr C_fortran_int, ''lda''),
         (C_ptr C_f2c_doublecomplex, ''tau''), (C_ptr C_f2c_doublecomplex, ''work''),
         (C_ptr C_fortran_int, ''lwork''), (C_ptr C_fortran_int, ''info'')]
    | DORGQR \<Rightarrow>
        [(C_ptr C_fortran_int, ''m''), (C_ptr C_fortran_int, ''n''),
         (C_ptr C_fortran_int, ''k''), (C_ptr C_double, ''a''),
         (C_ptr C_fortran_int, ''lda''), (C_ptr C_double, ''tau''),
         (C_ptr C_double, ''work''), (C_ptr C_fortran_int, ''lwork''),
         (C_ptr C_fortran_int, ''info'')]
    | ZUNGQR \<Rightarrow>
        [(C_ptr C_fortran_int, ''m''), (C_ptr C_fortran_int, ''n''),
         (C_ptr C_fortran_int, ''k''), (C_ptr C_f2c_doublecomplex, ''a''),
         (C_ptr C_fortran_int, ''lda''), (C_ptr C_f2c_doublecomplex, ''tau''),
         (C_ptr C_f2c_doublecomplex, ''work''), (C_ptr C_fortran_int, ''lwork''),
         (C_ptr C_fortran_int, ''info'')]
    | SGESV \<Rightarrow>
        [(C_ptr C_fortran_int, ''n''), (C_ptr C_fortran_int, ''nrhs''),
         (C_ptr C_float, ''a''), (C_ptr C_fortran_int, ''lda''),
         (C_ptr C_fortran_int, ''ipiv''), (C_ptr C_float, ''b''),
         (C_ptr C_fortran_int, ''ldb''), (C_ptr C_fortran_int, ''info'')]
    | DGESV \<Rightarrow>
        [(C_ptr C_fortran_int, ''n''), (C_ptr C_fortran_int, ''nrhs''),
         (C_ptr C_double, ''a''), (C_ptr C_fortran_int, ''lda''),
         (C_ptr C_fortran_int, ''ipiv''), (C_ptr C_double, ''b''),
         (C_ptr C_fortran_int, ''ldb''), (C_ptr C_fortran_int, ''info'')]
    | CGESV \<Rightarrow>
        [(C_ptr C_fortran_int, ''n''), (C_ptr C_fortran_int, ''nrhs''),
         (C_ptr C_f2c_complex, ''a''), (C_ptr C_fortran_int, ''lda''),
         (C_ptr C_fortran_int, ''ipiv''), (C_ptr C_f2c_complex, ''b''),
         (C_ptr C_fortran_int, ''ldb''), (C_ptr C_fortran_int, ''info'')]
    | ZGESV \<Rightarrow>
        [(C_ptr C_fortran_int, ''n''), (C_ptr C_fortran_int, ''nrhs''),
         (C_ptr C_f2c_doublecomplex, ''a''), (C_ptr C_fortran_int, ''lda''),
         (C_ptr C_fortran_int, ''ipiv''), (C_ptr C_f2c_doublecomplex, ''b''),
         (C_ptr C_fortran_int, ''ldb''), (C_ptr C_fortran_int, ''info'')]
    | SGETRF \<Rightarrow>
        [(C_ptr C_fortran_int, ''m''), (C_ptr C_fortran_int, ''n''),
         (C_ptr C_float, ''a''), (C_ptr C_fortran_int, ''lda''),
         (C_ptr C_fortran_int, ''ipiv''), (C_ptr C_fortran_int, ''info'')]
    | DGETRF \<Rightarrow>
        [(C_ptr C_fortran_int, ''m''), (C_ptr C_fortran_int, ''n''),
         (C_ptr C_double, ''a''), (C_ptr C_fortran_int, ''lda''),
         (C_ptr C_fortran_int, ''ipiv''), (C_ptr C_fortran_int, ''info'')]
    | CGETRF \<Rightarrow>
        [(C_ptr C_fortran_int, ''m''), (C_ptr C_fortran_int, ''n''),
         (C_ptr C_f2c_complex, ''a''), (C_ptr C_fortran_int, ''lda''),
         (C_ptr C_fortran_int, ''ipiv''), (C_ptr C_fortran_int, ''info'')]
    | ZGETRF \<Rightarrow>
        [(C_ptr C_fortran_int, ''m''), (C_ptr C_fortran_int, ''n''),
         (C_ptr C_f2c_doublecomplex, ''a''), (C_ptr C_fortran_int, ''lda''),
         (C_ptr C_fortran_int, ''ipiv''), (C_ptr C_fortran_int, ''info'')]
    | SPOTRF \<Rightarrow>
        [(C_ptr C_char, ''uplo''), (C_ptr C_fortran_int, ''n''), (C_ptr C_float, ''a''),
         (C_ptr C_fortran_int, ''lda''), (C_ptr C_fortran_int, ''info'')]
    | DPOTRF \<Rightarrow>
        [(C_ptr C_char, ''uplo''), (C_ptr C_fortran_int, ''n''), (C_ptr C_double, ''a''),
         (C_ptr C_fortran_int, ''lda''), (C_ptr C_fortran_int, ''info'')]
    | CPOTRF \<Rightarrow>
        [(C_ptr C_char, ''uplo''), (C_ptr C_fortran_int, ''n''),
         (C_ptr C_f2c_complex, ''a''), (C_ptr C_fortran_int, ''lda''),
         (C_ptr C_fortran_int, ''info'')]
    | ZPOTRF \<Rightarrow>
        [(C_ptr C_char, ''uplo''), (C_ptr C_fortran_int, ''n''),
         (C_ptr C_f2c_doublecomplex, ''a''), (C_ptr C_fortran_int, ''lda''),
         (C_ptr C_fortran_int, ''info'')]
    | SGESDD \<Rightarrow>
        [(C_ptr C_char, ''jobz''), (C_ptr C_fortran_int, ''m''),
         (C_ptr C_fortran_int, ''n''), (C_ptr C_float, ''a''),
         (C_ptr C_fortran_int, ''lda''), (C_ptr C_float, ''s''), (C_ptr C_float, ''u''),
         (C_ptr C_fortran_int, ''ldu''), (C_ptr C_float, ''vt''),
         (C_ptr C_fortran_int, ''ldvt''), (C_ptr C_float, ''work''),
         (C_ptr C_fortran_int, ''lwork''), (C_ptr C_fortran_int, ''iwork''),
         (C_ptr C_fortran_int, ''info'')]
    | DGESDD \<Rightarrow>
        [(C_ptr C_char, ''jobz''), (C_ptr C_fortran_int, ''m''),
         (C_ptr C_fortran_int, ''n''), (C_ptr C_double, ''a''),
         (C_ptr C_fortran_int, ''lda''), (C_ptr C_double, ''s''), (C_ptr C_double, ''u''),
         (C_ptr C_fortran_int, ''ldu''), (C_ptr C_double, ''vt''),
         (C_ptr C_fortran_int, ''ldvt''), (C_ptr C_double, ''work''),
         (C_ptr C_fortran_int, ''lwork''), (C_ptr C_fortran_int, ''iwork''),
         (C_ptr C_fortran_int, ''info'')]
    | CGESDD \<Rightarrow>
        [(C_ptr C_char, ''jobz''), (C_ptr C_fortran_int, ''m''),
         (C_ptr C_fortran_int, ''n''), (C_ptr C_f2c_complex, ''a''),
         (C_ptr C_fortran_int, ''lda''), (C_ptr C_float, ''s''),
         (C_ptr C_f2c_complex, ''u''), (C_ptr C_fortran_int, ''ldu''),
         (C_ptr C_f2c_complex, ''vt''), (C_ptr C_fortran_int, ''ldvt''),
         (C_ptr C_f2c_complex, ''work''), (C_ptr C_fortran_int, ''lwork''),
         (C_ptr C_float, ''rwork''), (C_ptr C_fortran_int, ''iwork''),
         (C_ptr C_fortran_int, ''info'')]
    | ZGESDD \<Rightarrow>
        [(C_ptr C_char, ''jobz''), (C_ptr C_fortran_int, ''m''),
         (C_ptr C_fortran_int, ''n''), (C_ptr C_f2c_doublecomplex, ''a''),
         (C_ptr C_fortran_int, ''lda''), (C_ptr C_double, ''s''),
         (C_ptr C_f2c_doublecomplex, ''u''), (C_ptr C_fortran_int, ''ldu''),
         (C_ptr C_f2c_doublecomplex, ''vt''), (C_ptr C_fortran_int, ''ldvt''),
         (C_ptr C_f2c_doublecomplex, ''work''), (C_ptr C_fortran_int, ''lwork''),
         (C_ptr C_double, ''rwork''), (C_ptr C_fortran_int, ''iwork''),
         (C_ptr C_fortran_int, ''info'')]
    | SPOTRS \<Rightarrow>
        [(C_ptr C_char, ''uplo''), (C_ptr C_fortran_int, ''n''),
         (C_ptr C_fortran_int, ''nrhs''), (C_ptr C_float, ''a''),
         (C_ptr C_fortran_int, ''lda''), (C_ptr C_float, ''b''),
         (C_ptr C_fortran_int, ''ldb''), (C_ptr C_fortran_int, ''info'')]
    | DPOTRS \<Rightarrow>
        [(C_ptr C_char, ''uplo''), (C_ptr C_fortran_int, ''n''),
         (C_ptr C_fortran_int, ''nrhs''), (C_ptr C_double, ''a''),
         (C_ptr C_fortran_int, ''lda''), (C_ptr C_double, ''b''),
         (C_ptr C_fortran_int, ''ldb''), (C_ptr C_fortran_int, ''info'')]
    | CPOTRS \<Rightarrow>
        [(C_ptr C_char, ''uplo''), (C_ptr C_fortran_int, ''n''),
         (C_ptr C_fortran_int, ''nrhs''), (C_ptr C_f2c_complex, ''a''),
         (C_ptr C_fortran_int, ''lda''), (C_ptr C_f2c_complex, ''b''),
         (C_ptr C_fortran_int, ''ldb''), (C_ptr C_fortran_int, ''info'')]
    | ZPOTRS \<Rightarrow>
        [(C_ptr C_char, ''uplo''), (C_ptr C_fortran_int, ''n''),
         (C_ptr C_fortran_int, ''nrhs''), (C_ptr C_f2c_doublecomplex, ''a''),
         (C_ptr C_fortran_int, ''lda''), (C_ptr C_f2c_doublecomplex, ''b''),
         (C_ptr C_fortran_int, ''ldb''), (C_ptr C_fortran_int, ''info'')]
    | SPOTRI \<Rightarrow>
        [(C_ptr C_char, ''uplo''), (C_ptr C_fortran_int, ''n''), (C_ptr C_float, ''a''),
         (C_ptr C_fortran_int, ''lda''), (C_ptr C_fortran_int, ''info'')]
    | DPOTRI \<Rightarrow>
        [(C_ptr C_char, ''uplo''), (C_ptr C_fortran_int, ''n''), (C_ptr C_double, ''a''),
         (C_ptr C_fortran_int, ''lda''), (C_ptr C_fortran_int, ''info'')]
    | CPOTRI \<Rightarrow>
        [(C_ptr C_char, ''uplo''), (C_ptr C_fortran_int, ''n''),
         (C_ptr C_f2c_complex, ''a''), (C_ptr C_fortran_int, ''lda''),
         (C_ptr C_fortran_int, ''info'')]
    | ZPOTRI \<Rightarrow>
        [(C_ptr C_char, ''uplo''), (C_ptr C_fortran_int, ''n''),
         (C_ptr C_f2c_doublecomplex, ''a''), (C_ptr C_fortran_int, ''lda''),
         (C_ptr C_fortran_int, ''info'')]
    | SCOPY \<Rightarrow>
        [(C_ptr C_fortran_int, ''n''), (C_ptr C_float, ''sx''),
         (C_ptr C_fortran_int, ''incx''), (C_ptr C_float, ''sy''),
         (C_ptr C_fortran_int, ''incy'')]
    | DCOPY \<Rightarrow>
        [(C_ptr C_fortran_int, ''n''), (C_ptr C_double, ''sx''),
         (C_ptr C_fortran_int, ''incx''), (C_ptr C_double, ''sy''),
         (C_ptr C_fortran_int, ''incy'')]
    | CCOPY \<Rightarrow>
        [(C_ptr C_fortran_int, ''n''), (C_ptr C_f2c_complex, ''sx''),
         (C_ptr C_fortran_int, ''incx''), (C_ptr C_f2c_complex, ''sy''),
         (C_ptr C_fortran_int, ''incy'')]
    | ZCOPY \<Rightarrow>
        [(C_ptr C_fortran_int, ''n''), (C_ptr C_f2c_doublecomplex, ''sx''),
         (C_ptr C_fortran_int, ''incx''), (C_ptr C_f2c_doublecomplex, ''sy''),
         (C_ptr C_fortran_int, ''incy'')]
    | SDOT \<Rightarrow>
        [(C_ptr C_fortran_int, ''n''), (C_ptr C_float, ''sx''),
         (C_ptr C_fortran_int, ''incx''), (C_ptr C_float, ''sy''),
         (C_ptr C_fortran_int, ''incy'')]
    | DDOT \<Rightarrow>
        [(C_ptr C_fortran_int, ''n''), (C_ptr C_double, ''sx''),
         (C_ptr C_fortran_int, ''incx''), (C_ptr C_double, ''sy''),
         (C_ptr C_fortran_int, ''incy'')]
    | CDOTU \<Rightarrow>
        [(C_ptr C_f2c_complex, ''ret''), (C_ptr C_fortran_int, ''n''),
         (C_ptr C_f2c_complex, ''sx''), (C_ptr C_fortran_int, ''incx''),
         (C_ptr C_f2c_complex, ''sy''), (C_ptr C_fortran_int, ''incy'')]
    | ZDOTU \<Rightarrow>
        [(C_ptr C_f2c_doublecomplex, ''ret''), (C_ptr C_fortran_int, ''n''),
         (C_ptr C_f2c_doublecomplex, ''sx''), (C_ptr C_fortran_int, ''incx''),
         (C_ptr C_f2c_doublecomplex, ''sy''), (C_ptr C_fortran_int, ''incy'')]
    | CDOTC \<Rightarrow>
        [(C_ptr C_f2c_complex, ''ret''), (C_ptr C_fortran_int, ''n''),
         (C_ptr C_f2c_complex, ''sx''), (C_ptr C_fortran_int, ''incx''),
         (C_ptr C_f2c_complex, ''sy''), (C_ptr C_fortran_int, ''incy'')]
    | ZDOTC \<Rightarrow>
        [(C_ptr C_f2c_doublecomplex, ''ret''), (C_ptr C_fortran_int, ''n''),
         (C_ptr C_f2c_doublecomplex, ''sx''), (C_ptr C_fortran_int, ''incx''),
         (C_ptr C_f2c_doublecomplex, ''sy''), (C_ptr C_fortran_int, ''incy'')]
    | SGEMM \<Rightarrow>
        [(C_ptr C_char, ''transa''), (C_ptr C_char, ''transb''),
         (C_ptr C_fortran_int, ''m''), (C_ptr C_fortran_int, ''n''),
         (C_ptr C_fortran_int, ''k''), (C_ptr C_float, ''alpha''), (C_ptr C_float, ''a''),
         (C_ptr C_fortran_int, ''lda''), (C_ptr C_float, ''b''),
         (C_ptr C_fortran_int, ''ldb''), (C_ptr C_float, ''beta''),
         (C_ptr C_float, ''c''), (C_ptr C_fortran_int, ''ldc'')]
    | DGEMM \<Rightarrow>
        [(C_ptr C_char, ''transa''), (C_ptr C_char, ''transb''),
         (C_ptr C_fortran_int, ''m''), (C_ptr C_fortran_int, ''n''),
         (C_ptr C_fortran_int, ''k''), (C_ptr C_double, ''alpha''),
         (C_ptr C_double, ''a''), (C_ptr C_fortran_int, ''lda''), (C_ptr C_double, ''b''),
         (C_ptr C_fortran_int, ''ldb''), (C_ptr C_double, ''beta''),
         (C_ptr C_double, ''c''), (C_ptr C_fortran_int, ''ldc'')]
    | CGEMM \<Rightarrow>
        [(C_ptr C_char, ''transa''), (C_ptr C_char, ''transb''),
         (C_ptr C_fortran_int, ''m''), (C_ptr C_fortran_int, ''n''),
         (C_ptr C_fortran_int, ''k''), (C_ptr C_f2c_complex, ''alpha''),
         (C_ptr C_f2c_complex, ''a''), (C_ptr C_fortran_int, ''lda''),
         (C_ptr C_f2c_complex, ''b''), (C_ptr C_fortran_int, ''ldb''),
         (C_ptr C_f2c_complex, ''beta''), (C_ptr C_f2c_complex, ''c''),
         (C_ptr C_fortran_int, ''ldc'')]
    | ZGEMM \<Rightarrow>
        [(C_ptr C_char, ''transa''), (C_ptr C_char, ''transb''),
         (C_ptr C_fortran_int, ''m''), (C_ptr C_fortran_int, ''n''),
         (C_ptr C_fortran_int, ''k''), (C_ptr C_f2c_doublecomplex, ''alpha''),
         (C_ptr C_f2c_doublecomplex, ''a''), (C_ptr C_fortran_int, ''lda''),
         (C_ptr C_f2c_doublecomplex, ''b''), (C_ptr C_fortran_int, ''ldb''),
         (C_ptr C_f2c_doublecomplex, ''beta''), (C_ptr C_f2c_doublecomplex, ''c''),
         (C_ptr C_fortran_int, ''ldc'')])"

definition arity :: "routine \<Rightarrow> nat" where
  "arity r = length (params r)"

definition wrapper_name :: "routine \<Rightarrow> string" where
  "wrapper_name r = ''accelerate_'' @ routine_name r"

text \<open>The functions the file exports.\<close>

definition exported :: "string set" where
  "exported = set (map wrapper_name all_routines)"

section \<open>The wrappers\<close>

text \<open>One definition for each function of the source file, in its order. The four
  wrappers of \<^verbatim>\<open>getrf\<close>, the four of \<^verbatim>\<open>copy\<close>, \<^verbatim>\<open>sdot\<close> and \<^verbatim>\<open>ddot\<close>
  are declared with a return type other than \<^verbatim>\<open>void\<close>; their bodies contain no
  \<^verbatim>\<open>return\<close> statement.\<close>

definition accelerate_sgeev ::
  "host \<Rightarrow> backend \<Rightarrow>
     addr \<Rightarrow> addr \<Rightarrow> addr \<Rightarrow> addr \<Rightarrow> addr \<Rightarrow> addr \<Rightarrow> addr \<Rightarrow> addr \<Rightarrow>
     addr \<Rightarrow> addr \<Rightarrow> addr \<Rightarrow> addr \<Rightarrow> addr \<Rightarrow> addr \<Rightarrow>
     state \<Rightarrow> state" where
  "accelerate_sgeev h lib jobvl jobvr n a lda wr wi vl ldvl vr ldvr work lwork info st =
     (if builtin_available (13, 3, 0) h
      then call_stmt lib Modern SGEEV
             [jobvl, jobvr, n, a, lda, wr, wi, vl, ldvl, vr, ldvr, work, lwork, info] st
      else call_stmt lib Legacy SGEEV
             [jobvl, jobvr, n, a, lda, wr, wi, vl, ldvl, vr, ldvr, work, lwork, info] st)"

definition accelerate_dgeev ::
  "host \<Rightarrow> backend \<Rightarrow>
     addr \<Rightarrow> addr \<Rightarrow> addr \<Rightarrow> addr \<Rightarrow> addr \<Rightarrow> addr \<Rightarrow> addr \<Rightarrow> addr \<Rightarrow>
     addr \<Rightarrow> addr \<Rightarrow> addr \<Rightarrow> addr \<Rightarrow> addr \<Rightarrow> addr \<Rightarrow>
     state \<Rightarrow> state" where
  "accelerate_dgeev h lib jobvl jobvr n a lda wr wi vl ldvl vr ldvr work lwork info st =
     (if builtin_available (13, 3, 0) h
      then call_stmt lib Modern DGEEV
             [jobvl, jobvr, n, a, lda, wr, wi, vl, ldvl, vr, ldvr, work, lwork, info] st
      else call_stmt lib Legacy DGEEV
             [jobvl, jobvr, n, a, lda, wr, wi, vl, ldvl, vr, ldvr, work, lwork, info] st)"

definition accelerate_cgeev ::
  "host \<Rightarrow> backend \<Rightarrow>
     addr \<Rightarrow> addr \<Rightarrow> addr \<Rightarrow> addr \<Rightarrow> addr \<Rightarrow> addr \<Rightarrow> addr \<Rightarrow> addr \<Rightarrow>
     addr \<Rightarrow> addr \<Rightarrow> addr \<Rightarrow> addr \<Rightarrow> addr \<Rightarrow> addr \<Rightarrow>
     state \<Rightarrow> state" where
  "accelerate_cgeev h lib jobvl jobvr n a lda w vl ldvl vr ldvr work lwork rwork info st =
     (if builtin_available (13, 3, 0) h
      then call_stmt lib Modern CGEEV
             [jobvl, jobvr, n, a, lda, w, vl, ldvl, vr, ldvr, work, lwork, rwork, info] st
      else call_stmt lib Legacy CGEEV
             [jobvl, jobvr, n, a, lda, w, vl, ldvl, vr, ldvr, work, lwork, rwork, info] st)"

definition accelerate_zgeev ::
  "host \<Rightarrow> backend \<Rightarrow>
     addr \<Rightarrow> addr \<Rightarrow> addr \<Rightarrow> addr \<Rightarrow> addr \<Rightarrow> addr \<Rightarrow> addr \<Rightarrow> addr \<Rightarrow>
     addr \<Rightarrow> addr \<Rightarrow> addr \<Rightarrow> addr \<Rightarrow> addr \<Rightarrow> addr \<Rightarrow>
     state \<Rightarrow> state" where
  "accelerate_zgeev h lib jobvl jobvr n a lda w vl ldvl vr ldvr work lwork rwork info st =
     (if builtin_available (13, 3, 0) h
      then call_stmt lib Modern ZGEEV
             [jobvl, jobvr, n, a, lda, w, vl, ldvl, vr, ldvr, work, lwork, rwork, info] st
      else call_stmt lib Legacy ZGEEV
             [jobvl, jobvr, n, a, lda, w, vl, ldvl, vr, ldvr, work, lwork, rwork, info] st)"

definition accelerate_ssyevd ::
  "host \<Rightarrow> backend \<Rightarrow>
     addr \<Rightarrow> addr \<Rightarrow> addr \<Rightarrow> addr \<Rightarrow> addr \<Rightarrow> addr \<Rightarrow> addr \<Rightarrow> addr \<Rightarrow>
     addr \<Rightarrow> addr \<Rightarrow> addr \<Rightarrow>
     state \<Rightarrow> state" where
  "accelerate_ssyevd h lib jobz uplo n a lda w work lwork iwork liwork info st =
     (if builtin_available (13, 3, 0) h
      then call_stmt lib Modern SSYEVD
             [jobz, uplo, n, a, lda, w, work, lwork, iwork, liwork, info] st
      else call_stmt lib Legacy SSYEVD
             [jobz, uplo, n, a, lda, w, work, lwork, iwork, liwork, info] st)"

definition accelerate_dsyevd ::
  "host \<Rightarrow> backend \<Rightarrow>
     addr \<Rightarrow> addr \<Rightarrow> addr \<Rightarrow> addr \<Rightarrow> addr \<Rightarrow> addr \<Rightarrow> addr \<Rightarrow> addr \<Rightarrow>
     addr \<Rightarrow> addr \<Rightarrow> addr \<Rightarrow>
     state \<Rightarrow> state" where
  "accelerate_dsyevd h lib jobz uplo n a lda w work lwork iwork liwork info st =
     (if builtin_available (13, 3, 0) h
      then call_stmt lib Modern DSYEVD
             [jobz, uplo, n, a, lda, w, work, lwork, iwork, liwork, info] st
      else call_stmt lib Legacy DSYEVD
             [jobz, uplo, n, a, lda, w, work, lwork, iwork, liwork, info] st)"

definition accelerate_cheevd ::
  "host \<Rightarrow> backend \<Rightarrow>
     addr \<Rightarrow> addr \<Rightarrow> addr \<Rightarrow> addr \<Rightarrow> addr \<Rightarrow> addr \<Rightarrow> addr \<Rightarrow> addr \<Rightarrow>
     addr \<Rightarrow> addr \<Rightarrow> addr \<Rightarrow> addr \<Rightarrow> addr \<Rightarrow>
     state \<Rightarrow> state" where
  "accelerate_cheevd h lib jobz uplo n a lda w work lwork rwork lrwork iwork liwork info st =
     (if builtin_available (13, 3, 0) h
      then call_stmt lib Modern CHEEVD
             [jobz, uplo, n, a, lda, w, work, lwork, rwork, lrwork, iwork, liwork, info] st
      else call_stmt lib Legacy CHEEVD
             [jobz, uplo, n, a, lda, w, work, lwork, rwork, lrwork, iwork, liwork, info] st)"

definition accelerate_zheevd ::
  "host \<Rightarrow> backend \<Rightarrow>
     addr \<Rightarrow> addr \<Rightarrow> addr \<Rightarrow> addr \<Rightarrow> addr \<Rightarrow> addr \<Rightarrow> addr \<Rightarrow> addr \<Rightarrow>
     addr \<Rightarrow> addr \<Rightarrow> addr \<Rightarrow> addr \<Rightarrow> addr \<Rightarrow>
     state \<Rightarrow> state" where
  "accelerate_zheevd h lib jobz uplo n a lda w work lwork rwork lrwork iwork liwork info st =
     (if builtin_available (13, 3, 0) h
      then call_stmt lib Modern ZHEEVD
             [jobz, uplo, n, a, lda, w, work, lwork, rwork, lrwork, iwork, liwork, info] st
      else call_stmt lib Legacy ZHEEVD
             [jobz, uplo, n, a, lda, w, work, lwork, rwork, lrwork, iwork, liwork, info] st)"

definition accelerate_sgelsd ::
  "host \<Rightarrow> backend \<Rightarrow>
     addr \<Rightarrow> addr \<Rightarrow> addr \<Rightarrow> addr \<Rightarrow> addr \<Rightarrow> addr \<Rightarrow> addr \<Rightarrow> addr \<Rightarrow>
     addr \<Rightarrow> addr \<Rightarrow> addr \<Rightarrow> addr \<Rightarrow> addr \<Rightarrow> addr \<Rightarrow>
     state \<Rightarrow> state" where
  "accelerate_sgelsd h lib m n nrhs a lda b ldb s rcond rank work lwork iwork info st =
     (if builtin_available (13, 3, 0) h
      then call_stmt lib Modern SGELSD
             [m, n, nrhs, a, lda, b, ldb, s, rcond, rank, work, lwork, iwork, info] st
      else call_stmt lib Legacy SGELSD
             [m, n, nrhs, a, lda, b, ldb, s, rcond, rank, work, lwork, iwork, info] st)"

definition accelerate_dgelsd ::
  "host \<Rightarrow> backend \<Rightarrow>
     addr \<Rightarrow> addr \<Rightarrow> addr \<Rightarrow> addr \<Rightarrow> addr \<Rightarrow> addr \<Rightarrow> addr \<Rightarrow> addr \<Rightarrow>
     addr \<Rightarrow> addr \<Rightarrow> addr \<Rightarrow> addr \<Rightarrow> addr \<Rightarrow> addr \<Rightarrow>
     state \<Rightarrow> state" where
  "accelerate_dgelsd h lib m n nrhs a lda b ldb s rcond rank work lwork iwork info st =
     (if builtin_available (13, 3, 0) h
      then call_stmt lib Modern DGELSD
             [m, n, nrhs, a, lda, b, ldb, s, rcond, rank, work, lwork, iwork, info] st
      else call_stmt lib Legacy DGELSD
             [m, n, nrhs, a, lda, b, ldb, s, rcond, rank, work, lwork, iwork, info] st)"

definition accelerate_cgelsd ::
  "host \<Rightarrow> backend \<Rightarrow>
     addr \<Rightarrow> addr \<Rightarrow> addr \<Rightarrow> addr \<Rightarrow> addr \<Rightarrow> addr \<Rightarrow> addr \<Rightarrow> addr \<Rightarrow>
     addr \<Rightarrow> addr \<Rightarrow> addr \<Rightarrow> addr \<Rightarrow> addr \<Rightarrow> addr \<Rightarrow> addr \<Rightarrow>
     state \<Rightarrow> state" where
  "accelerate_cgelsd h lib m n nrhs a lda b ldb s rcond rank work lwork rwork iwork info st =
     (if builtin_available (13, 3, 0) h
      then call_stmt lib Modern CGELSD
             [m, n, nrhs, a, lda, b, ldb, s, rcond, rank, work, lwork, rwork, iwork, info] st
      else call_stmt lib Legacy CGELSD
             [m, n, nrhs, a, lda, b, ldb, s, rcond, rank, work, lwork, rwork, iwork, info] st)"

definition accelerate_zgelsd ::
  "host \<Rightarrow> backend \<Rightarrow>
     addr \<Rightarrow> addr \<Rightarrow> addr \<Rightarrow> addr \<Rightarrow> addr \<Rightarrow> addr \<Rightarrow> addr \<Rightarrow> addr \<Rightarrow>
     addr \<Rightarrow> addr \<Rightarrow> addr \<Rightarrow> addr \<Rightarrow> addr \<Rightarrow> addr \<Rightarrow> addr \<Rightarrow>
     state \<Rightarrow> state" where
  "accelerate_zgelsd h lib m n nrhs a lda b ldb s rcond rank work lwork rwork iwork info st =
     (if builtin_available (13, 3, 0) h
      then call_stmt lib Modern ZGELSD
             [m, n, nrhs, a, lda, b, ldb, s, rcond, rank, work, lwork, rwork, iwork, info] st
      else call_stmt lib Legacy ZGELSD
             [m, n, nrhs, a, lda, b, ldb, s, rcond, rank, work, lwork, rwork, iwork, info] st)"

definition accelerate_dgeqrf ::
  "host \<Rightarrow> backend \<Rightarrow>
     addr \<Rightarrow> addr \<Rightarrow> addr \<Rightarrow> addr \<Rightarrow> addr \<Rightarrow> addr \<Rightarrow> addr \<Rightarrow> addr \<Rightarrow>
     state \<Rightarrow> state" where
  "accelerate_dgeqrf h lib m n a lda tau work lwork info st =
     (if builtin_available (13, 3, 0) h
      then call_stmt lib Modern DGEQRF
             [m, n, a, lda, tau, work, lwork, info] st
      else call_stmt lib Legacy DGEQRF
             [m, n, a, lda, tau, work, lwork, info] st)"

definition accelerate_zgeqrf ::
  "host \<Rightarrow> backend \<Rightarrow>
     addr \<Rightarrow> addr \<Rightarrow> addr \<Rightarrow> addr \<Rightarrow> addr \<Rightarrow> addr \<Rightarrow> addr \<Rightarrow> addr \<Rightarrow>
     state \<Rightarrow> state" where
  "accelerate_zgeqrf h lib m n a lda tau work lwork info st =
     (if builtin_available (13, 3, 0) h
      then call_stmt lib Modern ZGEQRF
             [m, n, a, lda, tau, work, lwork, info] st
      else call_stmt lib Legacy ZGEQRF
             [m, n, a, lda, tau, work, lwork, info] st)"

definition accelerate_dorgqr ::
  "host \<Rightarrow> backend \<Rightarrow>
     addr \<Rightarrow> addr \<Rightarrow> addr \<Rightarrow> addr \<Rightarrow> addr \<Rightarrow> addr \<Rightarrow> addr \<Rightarrow> addr \<Rightarrow>
     addr \<Rightarrow>
     state \<Rightarrow> state" where
  "accelerate_dorgqr h lib m n k a lda tau work lwork info st =
     (if builtin_available (13, 3, 0) h
      then call_stmt lib Modern DORGQR
             [m, n, k, a, lda, tau, work, lwork, info] st
      else call_stmt lib Legacy DORGQR
             [m, n, k, a, lda, tau, work, lwork, info] st)"

definition accelerate_zungqr ::
  "host \<Rightarrow> backend \<Rightarrow>
     addr \<Rightarrow> addr \<Rightarrow> addr \<Rightarrow> addr \<Rightarrow> addr \<Rightarrow> addr \<Rightarrow> addr \<Rightarrow> addr \<Rightarrow>
     addr \<Rightarrow>
     state \<Rightarrow> state" where
  "accelerate_zungqr h lib m n k a lda tau work lwork info st =
     (if builtin_available (13, 3, 0) h
      then call_stmt lib Modern ZUNGQR
             [m, n, k, a, lda, tau, work, lwork, info] st
      else call_stmt lib Legacy ZUNGQR
             [m, n, k, a, lda, tau, work, lwork, info] st)"

definition accelerate_sgesv ::
  "host \<Rightarrow> backend \<Rightarrow>
     addr \<Rightarrow> addr \<Rightarrow> addr \<Rightarrow> addr \<Rightarrow> addr \<Rightarrow> addr \<Rightarrow> addr \<Rightarrow> addr \<Rightarrow>
     state \<Rightarrow> state" where
  "accelerate_sgesv h lib n nrhs a lda ipiv b ldb info st =
     (if builtin_available (13, 3, 0) h
      then call_stmt lib Modern SGESV
             [n, nrhs, a, lda, ipiv, b, ldb, info] st
      else call_stmt lib Legacy SGESV
             [n, nrhs, a, lda, ipiv, b, ldb, info] st)"

definition accelerate_dgesv ::
  "host \<Rightarrow> backend \<Rightarrow>
     addr \<Rightarrow> addr \<Rightarrow> addr \<Rightarrow> addr \<Rightarrow> addr \<Rightarrow> addr \<Rightarrow> addr \<Rightarrow> addr \<Rightarrow>
     state \<Rightarrow> state" where
  "accelerate_dgesv h lib n nrhs a lda ipiv b ldb info st =
     (if builtin_available (13, 3, 0) h
      then call_stmt lib Modern DGESV
             [n, nrhs, a, lda, ipiv, b, ldb, info] st
      else call_stmt lib Legacy DGESV
             [n, nrhs, a, lda, ipiv, b, ldb, info] st)"

definition accelerate_cgesv ::
  "host \<Rightarrow> backend \<Rightarrow>
     addr \<Rightarrow> addr \<Rightarrow> addr \<Rightarrow> addr \<Rightarrow> addr \<Rightarrow> addr \<Rightarrow> addr \<Rightarrow> addr \<Rightarrow>
     state \<Rightarrow> state" where
  "accelerate_cgesv h lib n nrhs a lda ipiv b ldb info st =
     (if builtin_available (13, 3, 0) h
      then call_stmt lib Modern CGESV
             [n, nrhs, a, lda, ipiv, b, ldb, info] st
      else call_stmt lib Legacy CGESV
             [n, nrhs, a, lda, ipiv, b, ldb, info] st)"

definition accelerate_zgesv ::
  "host \<Rightarrow> backend \<Rightarrow>
     addr \<Rightarrow> addr \<Rightarrow> addr \<Rightarrow> addr \<Rightarrow> addr \<Rightarrow> addr \<Rightarrow> addr \<Rightarrow> addr \<Rightarrow>
     state \<Rightarrow> state" where
  "accelerate_zgesv h lib n nrhs a lda ipiv b ldb info st =
     (if builtin_available (13, 3, 0) h
      then call_stmt lib Modern ZGESV
             [n, nrhs, a, lda, ipiv, b, ldb, info] st
      else call_stmt lib Legacy ZGESV
             [n, nrhs, a, lda, ipiv, b, ldb, info] st)"

definition accelerate_sgetrf ::
  "host \<Rightarrow> backend \<Rightarrow>
     addr \<Rightarrow> addr \<Rightarrow> addr \<Rightarrow> addr \<Rightarrow> addr \<Rightarrow> addr \<Rightarrow>
     state \<Rightarrow> state \<times> cvalue option" where
  "accelerate_sgetrf h lib m n a lda ipiv info st =
     end_without_return
       (if builtin_available (13, 3, 0) h
        then call_stmt lib Modern SGETRF
               [m, n, a, lda, ipiv, info] st
        else call_stmt lib Legacy SGETRF
               [m, n, a, lda, ipiv, info] st)"

definition accelerate_dgetrf ::
  "host \<Rightarrow> backend \<Rightarrow>
     addr \<Rightarrow> addr \<Rightarrow> addr \<Rightarrow> addr \<Rightarrow> addr \<Rightarrow> addr \<Rightarrow>
     state \<Rightarrow> state \<times> cvalue option" where
  "accelerate_dgetrf h lib m n a lda ipiv info st =
     end_without_return
       (if builtin_available (13, 3, 0) h
        then call_stmt lib Modern DGETRF
               [m, n, a, lda, ipiv, info] st
        else call_stmt lib Legacy DGETRF
               [m, n, a, lda, ipiv, info] st)"

definition accelerate_cgetrf ::
  "host \<Rightarrow> backend \<Rightarrow>
     addr \<Rightarrow> addr \<Rightarrow> addr \<Rightarrow> addr \<Rightarrow> addr \<Rightarrow> addr \<Rightarrow>
     state \<Rightarrow> state \<times> cvalue option" where
  "accelerate_cgetrf h lib m n a lda ipiv info st =
     end_without_return
       (if builtin_available (13, 3, 0) h
        then call_stmt lib Modern CGETRF
               [m, n, a, lda, ipiv, info] st
        else call_stmt lib Legacy CGETRF
               [m, n, a, lda, ipiv, info] st)"

definition accelerate_zgetrf ::
  "host \<Rightarrow> backend \<Rightarrow>
     addr \<Rightarrow> addr \<Rightarrow> addr \<Rightarrow> addr \<Rightarrow> addr \<Rightarrow> addr \<Rightarrow>
     state \<Rightarrow> state \<times> cvalue option" where
  "accelerate_zgetrf h lib m n a lda ipiv info st =
     end_without_return
       (if builtin_available (13, 3, 0) h
        then call_stmt lib Modern ZGETRF
               [m, n, a, lda, ipiv, info] st
        else call_stmt lib Legacy ZGETRF
               [m, n, a, lda, ipiv, info] st)"

definition accelerate_spotrf ::
  "host \<Rightarrow> backend \<Rightarrow>
     addr \<Rightarrow> addr \<Rightarrow> addr \<Rightarrow> addr \<Rightarrow> addr \<Rightarrow>
     state \<Rightarrow> state" where
  "accelerate_spotrf h lib uplo n a lda info st =
     (if builtin_available (13, 3, 0) h
      then call_stmt lib Modern SPOTRF
             [uplo, n, a, lda, info] st
      else call_stmt lib Legacy SPOTRF
             [uplo, n, a, lda, info] st)"

definition accelerate_dpotrf ::
  "host \<Rightarrow> backend \<Rightarrow>
     addr \<Rightarrow> addr \<Rightarrow> addr \<Rightarrow> addr \<Rightarrow> addr \<Rightarrow>
     state \<Rightarrow> state" where
  "accelerate_dpotrf h lib uplo n a lda info st =
     (if builtin_available (13, 3, 0) h
      then call_stmt lib Modern DPOTRF
             [uplo, n, a, lda, info] st
      else call_stmt lib Legacy DPOTRF
             [uplo, n, a, lda, info] st)"

definition accelerate_cpotrf ::
  "host \<Rightarrow> backend \<Rightarrow>
     addr \<Rightarrow> addr \<Rightarrow> addr \<Rightarrow> addr \<Rightarrow> addr \<Rightarrow>
     state \<Rightarrow> state" where
  "accelerate_cpotrf h lib uplo n a lda info st =
     (if builtin_available (13, 3, 0) h
      then call_stmt lib Modern CPOTRF
             [uplo, n, a, lda, info] st
      else call_stmt lib Legacy CPOTRF
             [uplo, n, a, lda, info] st)"

definition accelerate_zpotrf ::
  "host \<Rightarrow> backend \<Rightarrow>
     addr \<Rightarrow> addr \<Rightarrow> addr \<Rightarrow> addr \<Rightarrow> addr \<Rightarrow>
     state \<Rightarrow> state" where
  "accelerate_zpotrf h lib uplo n a lda info st =
     (if builtin_available (13, 3, 0) h
      then call_stmt lib Modern ZPOTRF
             [uplo, n, a, lda, info] st
      else call_stmt lib Legacy ZPOTRF
             [uplo, n, a, lda, info] st)"

definition accelerate_sgesdd ::
  "host \<Rightarrow> backend \<Rightarrow>
     addr \<Rightarrow> addr \<Rightarrow> addr \<Rightarrow> addr \<Rightarrow> addr \<Rightarrow> addr \<Rightarrow> addr \<Rightarrow> addr \<Rightarrow>
     addr \<Rightarrow> addr \<Rightarrow> addr \<Rightarrow> addr \<Rightarrow> addr \<Rightarrow> addr \<Rightarrow>
     state \<Rightarrow> state" where
  "accelerate_sgesdd h lib jobz m n a lda s u ldu vt ldvt work lwork iwork info st =
     (if builtin_available (13, 3, 0) h
      then call_stmt lib Modern SGESDD
             [jobz, m, n, a, lda, s, u, ldu, vt, ldvt, work, lwork, iwork, info] st
      else call_stmt lib Legacy SGESDD
             [jobz, m, n, a, lda, s, u, ldu, vt, ldvt, work, lwork, iwork, info] st)"

definition accelerate_dgesdd ::
  "host \<Rightarrow> backend \<Rightarrow>
     addr \<Rightarrow> addr \<Rightarrow> addr \<Rightarrow> addr \<Rightarrow> addr \<Rightarrow> addr \<Rightarrow> addr \<Rightarrow> addr \<Rightarrow>
     addr \<Rightarrow> addr \<Rightarrow> addr \<Rightarrow> addr \<Rightarrow> addr \<Rightarrow> addr \<Rightarrow>
     state \<Rightarrow> state" where
  "accelerate_dgesdd h lib jobz m n a lda s u ldu vt ldvt work lwork iwork info st =
     (if builtin_available (13, 3, 0) h
      then call_stmt lib Modern DGESDD
             [jobz, m, n, a, lda, s, u, ldu, vt, ldvt, work, lwork, iwork, info] st
      else call_stmt lib Legacy DGESDD
             [jobz, m, n, a, lda, s, u, ldu, vt, ldvt, work, lwork, iwork, info] st)"

definition accelerate_cgesdd ::
  "host \<Rightarrow> backend \<Rightarrow>
     addr \<Rightarrow> addr \<Rightarrow> addr \<Rightarrow> addr \<Rightarrow> addr \<Rightarrow> addr \<Rightarrow> addr \<Rightarrow> addr \<Rightarrow>
     addr \<Rightarrow> addr \<Rightarrow> addr \<Rightarrow> addr \<Rightarrow> addr \<Rightarrow> addr \<Rightarrow> addr \<Rightarrow>
     state \<Rightarrow> state" where
  "accelerate_cgesdd h lib jobz m n a lda s u ldu vt ldvt work lwork rwork iwork info st =
     (if builtin_available (13, 3, 0) h
      then call_stmt lib Modern CGESDD
             [jobz, m, n, a, lda, s, u, ldu, vt, ldvt, work, lwork, rwork, iwork, info] st
      else call_stmt lib Legacy CGESDD
             [jobz, m, n, a, lda, s, u, ldu, vt, ldvt, work, lwork, rwork, iwork, info] st)"

definition accelerate_zgesdd ::
  "host \<Rightarrow> backend \<Rightarrow>
     addr \<Rightarrow> addr \<Rightarrow> addr \<Rightarrow> addr \<Rightarrow> addr \<Rightarrow> addr \<Rightarrow> addr \<Rightarrow> addr \<Rightarrow>
     addr \<Rightarrow> addr \<Rightarrow> addr \<Rightarrow> addr \<Rightarrow> addr \<Rightarrow> addr \<Rightarrow> addr \<Rightarrow>
     state \<Rightarrow> state" where
  "accelerate_zgesdd h lib jobz m n a lda s u ldu vt ldvt work lwork rwork iwork info st =
     (if builtin_available (13, 3, 0) h
      then call_stmt lib Modern ZGESDD
             [jobz, m, n, a, lda, s, u, ldu, vt, ldvt, work, lwork, rwork, iwork, info] st
      else call_stmt lib Legacy ZGESDD
             [jobz, m, n, a, lda, s, u, ldu, vt, ldvt, work, lwork, rwork, iwork, info] st)"

definition accelerate_spotrs ::
  "host \<Rightarrow> backend \<Rightarrow>
     addr \<Rightarrow> addr \<Rightarrow> addr \<Rightarrow> addr \<Rightarrow> addr \<Rightarrow> addr \<Rightarrow> addr \<Rightarrow> addr \<Rightarrow>
     state \<Rightarrow> state" where
  "accelerate_spotrs h lib uplo n nrhs a lda b ldb info st =
     (if builtin_available (13, 3, 0) h
      then call_stmt lib Modern SPOTRS
             [uplo, n, nrhs, a, lda, b, ldb, info] st
      else call_stmt lib Legacy SPOTRS
             [uplo, n, nrhs, a, lda, b, ldb, info] st)"

definition accelerate_dpotrs ::
  "host \<Rightarrow> backend \<Rightarrow>
     addr \<Rightarrow> addr \<Rightarrow> addr \<Rightarrow> addr \<Rightarrow> addr \<Rightarrow> addr \<Rightarrow> addr \<Rightarrow> addr \<Rightarrow>
     state \<Rightarrow> state" where
  "accelerate_dpotrs h lib uplo n nrhs a lda b ldb info st =
     (if builtin_available (13, 3, 0) h
      then call_stmt lib Modern DPOTRS
             [uplo, n, nrhs, a, lda, b, ldb, info] st
      else call_stmt lib Legacy DPOTRS
             [uplo, n, nrhs, a, lda, b, ldb, info] st)"

definition accelerate_cpotrs ::
  "host \<Rightarrow> backend \<Rightarrow>
     addr \<Rightarrow> addr \<Rightarrow> addr \<Rightarrow> addr \<Rightarrow> addr \<Rightarrow> addr \<Rightarrow> addr \<Rightarrow> addr \<Rightarrow>
     state \<Rightarrow> state" where
  "accelerate_cpotrs h lib uplo n nrhs a lda b ldb info st =
     (if builtin_available (13, 3, 0) h
      then call_stmt lib Modern CPOTRS
             [uplo, n, nrhs, a, lda, b, ldb, info] st
      else call_stmt lib Legacy CPOTRS
             [uplo, n, nrhs, a, lda, b, ldb, info] st)"

definition accelerate_zpotrs ::
  "host \<Rightarrow> backend \<Rightarrow>
     addr \<Rightarrow> addr \<Rightarrow> addr \<Rightarrow> addr \<Rightarrow> addr \<Rightarrow> addr \<Rightarrow> addr \<Rightarrow> addr \<Rightarrow>
     state \<Rightarrow> state" where
  "accelerate_zpotrs h lib uplo n nrhs a lda b ldb info st =
     (if builtin_available (13, 3, 0) h
      then call_stmt lib Modern ZPOTRS
             [uplo, n, nrhs, a, lda, b, ldb, info] st
      else call_stmt lib Legacy ZPOTRS
             [uplo, n, nrhs, a, lda, b, ldb, info] st)"

definition accelerate_spotri ::
  "host \<Rightarrow> backend \<Rightarrow>
     addr \<Rightarrow> addr \<Rightarrow> addr \<Rightarrow> addr \<Rightarrow> addr \<Rightarrow>
     state \<Rightarrow> state" where
  "accelerate_spotri h lib uplo n a lda info st =
     (if builtin_available (13, 3, 0) h
      then call_stmt lib Modern SPOTRI
             [uplo, n, a, lda, info] st
      else call_stmt lib Legacy SPOTRI
             [uplo, n, a, lda, info] st)"

definition accelerate_dpotri ::
  "host \<Rightarrow> backend \<Rightarrow>
     addr \<Rightarrow> addr \<Rightarrow> addr \<Rightarrow> addr \<Rightarrow> addr \<Rightarrow>
     state \<Rightarrow> state" where
  "accelerate_dpotri h lib uplo n a lda info st =
     (if builtin_available (13, 3, 0) h
      then call_stmt lib Modern DPOTRI
             [uplo, n, a, lda, info] st
      else call_stmt lib Legacy DPOTRI
             [uplo, n, a, lda, info] st)"

definition accelerate_cpotri ::
  "host \<Rightarrow> backend \<Rightarrow>
     addr \<Rightarrow> addr \<Rightarrow> addr \<Rightarrow> addr \<Rightarrow> addr \<Rightarrow>
     state \<Rightarrow> state" where
  "accelerate_cpotri h lib uplo n a lda info st =
     (if builtin_available (13, 3, 0) h
      then call_stmt lib Modern CPOTRI
             [uplo, n, a, lda, info] st
      else call_stmt lib Legacy CPOTRI
             [uplo, n, a, lda, info] st)"

definition accelerate_zpotri ::
  "host \<Rightarrow> backend \<Rightarrow>
     addr \<Rightarrow> addr \<Rightarrow> addr \<Rightarrow> addr \<Rightarrow> addr \<Rightarrow>
     state \<Rightarrow> state" where
  "accelerate_zpotri h lib uplo n a lda info st =
     (if builtin_available (13, 3, 0) h
      then call_stmt lib Modern ZPOTRI
             [uplo, n, a, lda, info] st
      else call_stmt lib Legacy ZPOTRI
             [uplo, n, a, lda, info] st)"

definition accelerate_scopy ::
  "host \<Rightarrow> backend \<Rightarrow>
     addr \<Rightarrow> addr \<Rightarrow> addr \<Rightarrow> addr \<Rightarrow> addr \<Rightarrow>
     state \<Rightarrow> state \<times> cvalue option" where
  "accelerate_scopy h lib n sx incx sy incy st =
     end_without_return
       (if builtin_available (13, 3, 0) h
        then call_stmt lib Modern SCOPY
               [n, sx, incx, sy, incy] st
        else call_stmt lib Legacy SCOPY
               [n, sx, incx, sy, incy] st)"

definition accelerate_dcopy ::
  "host \<Rightarrow> backend \<Rightarrow>
     addr \<Rightarrow> addr \<Rightarrow> addr \<Rightarrow> addr \<Rightarrow> addr \<Rightarrow>
     state \<Rightarrow> state \<times> cvalue option" where
  "accelerate_dcopy h lib n sx incx sy incy st =
     end_without_return
       (if builtin_available (13, 3, 0) h
        then call_stmt lib Modern DCOPY
               [n, sx, incx, sy, incy] st
        else call_stmt lib Legacy DCOPY
               [n, sx, incx, sy, incy] st)"

definition accelerate_ccopy ::
  "host \<Rightarrow> backend \<Rightarrow>
     addr \<Rightarrow> addr \<Rightarrow> addr \<Rightarrow> addr \<Rightarrow> addr \<Rightarrow>
     state \<Rightarrow> state \<times> cvalue option" where
  "accelerate_ccopy h lib n sx incx sy incy st =
     end_without_return
       (if builtin_available (13, 3, 0) h
        then call_stmt lib Modern CCOPY
               [n, sx, incx, sy, incy] st
        else call_stmt lib Legacy CCOPY
               [n, sx, incx, sy, incy] st)"

definition accelerate_zcopy ::
  "host \<Rightarrow> backend \<Rightarrow>
     addr \<Rightarrow> addr \<Rightarrow> addr \<Rightarrow> addr \<Rightarrow> addr \<Rightarrow>
     state \<Rightarrow> state \<times> cvalue option" where
  "accelerate_zcopy h lib n sx incx sy incy st =
     end_without_return
       (if builtin_available (13, 3, 0) h
        then call_stmt lib Modern ZCOPY
               [n, sx, incx, sy, incy] st
        else call_stmt lib Legacy ZCOPY
               [n, sx, incx, sy, incy] st)"

definition accelerate_sdot ::
  "host \<Rightarrow> backend \<Rightarrow>
     addr \<Rightarrow> addr \<Rightarrow> addr \<Rightarrow> addr \<Rightarrow> addr \<Rightarrow>
     state \<Rightarrow> state \<times> cvalue option" where
  "accelerate_sdot h lib n sx incx sy incy st =
     end_without_return
       (if builtin_available (13, 3, 0) h
        then call_stmt lib Modern SDOT
               [n, sx, incx, sy, incy] st
        else call_stmt lib Legacy SDOT
               [n, sx, incx, sy, incy] st)"

definition accelerate_ddot ::
  "host \<Rightarrow> backend \<Rightarrow>
     addr \<Rightarrow> addr \<Rightarrow> addr \<Rightarrow> addr \<Rightarrow> addr \<Rightarrow>
     state \<Rightarrow> state \<times> cvalue option" where
  "accelerate_ddot h lib n sx incx sy incy st =
     end_without_return
       (if builtin_available (13, 3, 0) h
        then call_stmt lib Modern DDOT
               [n, sx, incx, sy, incy] st
        else call_stmt lib Legacy DDOT
               [n, sx, incx, sy, incy] st)"

definition accelerate_cdotu ::
  "host \<Rightarrow> backend \<Rightarrow>
     addr \<Rightarrow> addr \<Rightarrow> addr \<Rightarrow> addr \<Rightarrow> addr \<Rightarrow> addr \<Rightarrow>
     state \<Rightarrow> state" where
  "accelerate_cdotu h lib ret n sx incx sy incy st =
     (if builtin_available (13, 3, 0) h
      then call_stmt lib Modern CDOTU
             [ret, n, sx, incx, sy, incy] st
      else call_stmt lib Legacy CDOTU
             [ret, n, sx, incx, sy, incy] st)"

definition accelerate_zdotu ::
  "host \<Rightarrow> backend \<Rightarrow>
     addr \<Rightarrow> addr \<Rightarrow> addr \<Rightarrow> addr \<Rightarrow> addr \<Rightarrow> addr \<Rightarrow>
     state \<Rightarrow> state" where
  "accelerate_zdotu h lib ret n sx incx sy incy st =
     (if builtin_available (13, 3, 0) h
      then call_stmt lib Modern ZDOTU
             [ret, n, sx, incx, sy, incy] st
      else call_stmt lib Legacy ZDOTU
             [ret, n, sx, incx, sy, incy] st)"

definition accelerate_cdotc ::
  "host \<Rightarrow> backend \<Rightarrow>
     addr \<Rightarrow> addr \<Rightarrow> addr \<Rightarrow> addr \<Rightarrow> addr \<Rightarrow> addr \<Rightarrow>
     state \<Rightarrow> state" where
  "accelerate_cdotc h lib ret n sx incx sy incy st =
     (if builtin_available (13, 3, 0) h
      then call_stmt lib Modern CDOTC
             [ret, n, sx, incx, sy, incy] st
      else call_stmt lib Legacy CDOTC
             [ret, n, sx, incx, sy, incy] st)"

definition accelerate_zdotc ::
  "host \<Rightarrow> backend \<Rightarrow>
     addr \<Rightarrow> addr \<Rightarrow> addr \<Rightarrow> addr \<Rightarrow> addr \<Rightarrow> addr \<Rightarrow>
     state \<Rightarrow> state" where
  "accelerate_zdotc h lib ret n sx incx sy incy st =
     (if builtin_available (13, 3, 0) h
      then call_stmt lib Modern ZDOTC
             [ret, n, sx, incx, sy, incy] st
      else call_stmt lib Legacy ZDOTC
             [ret, n, sx, incx, sy, incy] st)"

definition accelerate_sgemm ::
  "host \<Rightarrow> backend \<Rightarrow>
     addr \<Rightarrow> addr \<Rightarrow> addr \<Rightarrow> addr \<Rightarrow> addr \<Rightarrow> addr \<Rightarrow> addr \<Rightarrow> addr \<Rightarrow>
     addr \<Rightarrow> addr \<Rightarrow> addr \<Rightarrow> addr \<Rightarrow> addr \<Rightarrow>
     state \<Rightarrow> state" where
  "accelerate_sgemm h lib transa transb m n k alpha a lda b ldb beta c ldc st =
     (if builtin_available (13, 3, 0) h
      then call_stmt lib Modern SGEMM
             [transa, transb, m, n, k, alpha, a, lda, b, ldb, beta, c, ldc] st
      else call_stmt lib Legacy SGEMM
             [transa, transb, m, n, k, alpha, a, lda, b, ldb, beta, c, ldc] st)"

definition accelerate_dgemm ::
  "host \<Rightarrow> backend \<Rightarrow>
     addr \<Rightarrow> addr \<Rightarrow> addr \<Rightarrow> addr \<Rightarrow> addr \<Rightarrow> addr \<Rightarrow> addr \<Rightarrow> addr \<Rightarrow>
     addr \<Rightarrow> addr \<Rightarrow> addr \<Rightarrow> addr \<Rightarrow> addr \<Rightarrow>
     state \<Rightarrow> state" where
  "accelerate_dgemm h lib transa transb m n k alpha a lda b ldb beta c ldc st =
     (if builtin_available (13, 3, 0) h
      then call_stmt lib Modern DGEMM
             [transa, transb, m, n, k, alpha, a, lda, b, ldb, beta, c, ldc] st
      else call_stmt lib Legacy DGEMM
             [transa, transb, m, n, k, alpha, a, lda, b, ldb, beta, c, ldc] st)"

definition accelerate_cgemm ::
  "host \<Rightarrow> backend \<Rightarrow>
     addr \<Rightarrow> addr \<Rightarrow> addr \<Rightarrow> addr \<Rightarrow> addr \<Rightarrow> addr \<Rightarrow> addr \<Rightarrow> addr \<Rightarrow>
     addr \<Rightarrow> addr \<Rightarrow> addr \<Rightarrow> addr \<Rightarrow> addr \<Rightarrow>
     state \<Rightarrow> state" where
  "accelerate_cgemm h lib transa transb m n k alpha a lda b ldb beta c ldc st =
     (if builtin_available (13, 3, 0) h
      then call_stmt lib Modern CGEMM
             [transa, transb, m, n, k, alpha, a, lda, b, ldb, beta, c, ldc] st
      else call_stmt lib Legacy CGEMM
             [transa, transb, m, n, k, alpha, a, lda, b, ldb, beta, c, ldc] st)"

definition accelerate_zgemm ::
  "host \<Rightarrow> backend \<Rightarrow>
     addr \<Rightarrow> addr \<Rightarrow> addr \<Rightarrow> addr \<Rightarrow> addr \<Rightarrow> addr \<Rightarrow> addr \<Rightarrow> addr \<Rightarrow>
     addr \<Rightarrow> addr \<Rightarrow> addr \<Rightarrow> addr \<Rightarrow> addr \<Rightarrow>
     state \<Rightarrow> state" where
  "accelerate_zgemm h lib transa transb m n k alpha a lda b ldb beta c ldc st =
     (if builtin_available (13, 3, 0) h
      then call_stmt lib Modern ZGEMM
             [transa, transb, m, n, k, alpha, a, lda, b, ldb, beta, c, ldc] st
      else call_stmt lib Legacy ZGEMM
             [transa, transb, m, n, k, alpha, a, lda, b, ldb, beta, c, ldc] st)"

section \<open>Calling a wrapper by name\<close>

text \<open>
  \<open>invoke h lib r args st\<close> calls the wrapper of routine \<open>r\<close> with the argument vector
  \<open>args\<close>; the result is \<open>None\<close> when the vector does not have the length of the
  wrapper's parameter list, a call the C compiler rejects. A wrapper declared
  \<^verbatim>\<open>void\<close> hands no value to its caller.
\<close>

definition invoke ::
  "host \<Rightarrow> backend \<Rightarrow> routine \<Rightarrow> addr list \<Rightarrow> state \<Rightarrow> (state \<times> cvalue option) option" where
  "invoke h lib r args st = (case r of
      SGEEV \<Rightarrow>
        (case args of [jobvl, jobvr, n, a, lda, wr, wi, vl, ldvl, vr, ldvr, work, lwork, info] \<Rightarrow>
            Some (accelerate_sgeev h lib jobvl jobvr n a lda wr wi vl ldvl vr ldvr work lwork info st, None)
         | _ \<Rightarrow> None)
    | DGEEV \<Rightarrow>
        (case args of [jobvl, jobvr, n, a, lda, wr, wi, vl, ldvl, vr, ldvr, work, lwork, info] \<Rightarrow>
            Some (accelerate_dgeev h lib jobvl jobvr n a lda wr wi vl ldvl vr ldvr work lwork info st, None)
         | _ \<Rightarrow> None)
    | CGEEV \<Rightarrow>
        (case args of [jobvl, jobvr, n, a, lda, w, vl, ldvl, vr, ldvr, work, lwork, rwork, info] \<Rightarrow>
            Some (accelerate_cgeev h lib jobvl jobvr n a lda w vl ldvl vr ldvr work lwork rwork info st, None)
         | _ \<Rightarrow> None)
    | ZGEEV \<Rightarrow>
        (case args of [jobvl, jobvr, n, a, lda, w, vl, ldvl, vr, ldvr, work, lwork, rwork, info] \<Rightarrow>
            Some (accelerate_zgeev h lib jobvl jobvr n a lda w vl ldvl vr ldvr work lwork rwork info st, None)
         | _ \<Rightarrow> None)
    | SSYEVD \<Rightarrow>
        (case args of [jobz, uplo, n, a, lda, w, work, lwork, iwork, liwork, info] \<Rightarrow>
            Some (accelerate_ssyevd h lib jobz uplo n a lda w work lwork iwork liwork info st, None)
         | _ \<Rightarrow> None)
    | DSYEVD \<Rightarrow>
        (case args of [jobz, uplo, n, a, lda, w, work, lwork, iwork, liwork, info] \<Rightarrow>
            Some (accelerate_dsyevd h lib jobz uplo n a lda w work lwork iwork liwork info st, None)
         | _ \<Rightarrow> None)
    | CHEEVD \<Rightarrow>
        (case args of [jobz, uplo, n, a, lda, w, work, lwork, rwork, lrwork, iwork, liwork, info] \<Rightarrow>
            Some (accelerate_cheevd h lib jobz uplo n a lda w work lwork rwork lrwork iwork liwork info st, None)
         | _ \<Rightarrow> None)
    | ZHEEVD \<Rightarrow>
        (case args of [jobz, uplo, n, a, lda, w, work, lwork, rwork, lrwork, iwork, liwork, info] \<Rightarrow>
            Some (accelerate_zheevd h lib jobz uplo n a lda w work lwork rwork lrwork iwork liwork info st, None)
         | _ \<Rightarrow> None)
    | SGELSD \<Rightarrow>
        (case args of [m, n, nrhs, a, lda, b, ldb, s, rcond, rank, work, lwork, iwork, info] \<Rightarrow>
            Some (accelerate_sgelsd h lib m n nrhs a lda b ldb s rcond rank work lwork iwork info st, None)
         | _ \<Rightarrow> None)
    | DGELSD \<Rightarrow>
        (case args of [m, n, nrhs, a, lda, b, ldb, s, rcond, rank, work, lwork, iwork, info] \<Rightarrow>
            Some (accelerate_dgelsd h lib m n nrhs a lda b ldb s rcond rank work lwork iwork info st, None)
         | _ \<Rightarrow> None)
    | CGELSD \<Rightarrow>
        (case args of [m, n, nrhs, a, lda, b, ldb, s, rcond, rank, work, lwork, rwork, iwork, info] \<Rightarrow>
            Some (accelerate_cgelsd h lib m n nrhs a lda b ldb s rcond rank work lwork rwork iwork info st, None)
         | _ \<Rightarrow> None)
    | ZGELSD \<Rightarrow>
        (case args of [m, n, nrhs, a, lda, b, ldb, s, rcond, rank, work, lwork, rwork, iwork, info] \<Rightarrow>
            Some (accelerate_zgelsd h lib m n nrhs a lda b ldb s rcond rank work lwork rwork iwork info st, None)
         | _ \<Rightarrow> None)
    | DGEQRF \<Rightarrow>
        (case args of [m, n, a, lda, tau, work, lwork, info] \<Rightarrow>
            Some (accelerate_dgeqrf h lib m n a lda tau work lwork info st, None)
         | _ \<Rightarrow> None)
    | ZGEQRF \<Rightarrow>
        (case args of [m, n, a, lda, tau, work, lwork, info] \<Rightarrow>
            Some (accelerate_zgeqrf h lib m n a lda tau work lwork info st, None)
         | _ \<Rightarrow> None)
    | DORGQR \<Rightarrow>
        (case args of [m, n, k, a, lda, tau, work, lwork, info] \<Rightarrow>
            Some (accelerate_dorgqr h lib m n k a lda tau work lwork info st, None)
         | _ \<Rightarrow> None)
    | ZUNGQR \<Rightarrow>
        (case args of [m, n, k, a, lda, tau, work, lwork, info] \<Rightarrow>
            Some (accelerate_zungqr h lib m n k a lda tau work lwork info st, None)
         | _ \<Rightarrow> None)
    | SGESV \<Rightarrow>
        (case args of [n, nrhs, a, lda, ipiv, b, ldb, info] \<Rightarrow>
            Some (accelerate_sgesv h lib n nrhs a lda ipiv b ldb info st, None)
         | _ \<Rightarrow> None)
    | DGESV \<Rightarrow>
        (case args of [n, nrhs, a, lda, ipiv, b, ldb, info] \<Rightarrow>
            Some (accelerate_dgesv h lib n nrhs a lda ipiv b ldb info st, None)
         | _ \<Rightarrow> None)
    | CGESV \<Rightarrow>
        (case args of [n, nrhs, a, lda, ipiv, b, ldb, info] \<Rightarrow>
            Some (accelerate_cgesv h lib n nrhs a lda ipiv b ldb info st, None)
         | _ \<Rightarrow> None)
    | ZGESV \<Rightarrow>
        (case args of [n, nrhs, a, lda, ipiv, b, ldb, info] \<Rightarrow>
            Some (accelerate_zgesv h lib n nrhs a lda ipiv b ldb info st, None)
         | _ \<Rightarrow> None)
    | SGETRF \<Rightarrow>
        (case args of [m, n, a, lda, ipiv, info] \<Rightarrow>
            Some (accelerate_sgetrf h lib m n a lda ipiv info st)
         | _ \<Rightarrow> None)
    | DGETRF \<Rightarrow>
        (case args of [m, n, a, lda, ipiv, info] \<Rightarrow>
            Some (accelerate_dgetrf h lib m n a lda ipiv info st)
         | _ \<Rightarrow> None)
    | CGETRF \<Rightarrow>
        (case args of [m, n, a, lda, ipiv, info] \<Rightarrow>
            Some (accelerate_cgetrf h lib m n a lda ipiv info st)
         | _ \<Rightarrow> None)
    | ZGETRF \<Rightarrow>
        (case args of [m, n, a, lda, ipiv, info] \<Rightarrow>
            Some (accelerate_zgetrf h lib m n a lda ipiv info st)
         | _ \<Rightarrow> None)
    | SPOTRF \<Rightarrow>
        (case args of [uplo, n, a, lda, info] \<Rightarrow>
            Some (accelerate_spotrf h lib uplo n a lda info st, None)
         | _ \<Rightarrow> None)
    | DPOTRF \<Rightarrow>
        (case args of [uplo, n, a, lda, info] \<Rightarrow>
            Some (accelerate_dpotrf h lib uplo n a lda info st, None)
         | _ \<Rightarrow> None)
    | CPOTRF \<Rightarrow>
        (case args of [uplo, n, a, lda, info] \<Rightarrow>
            Some (accelerate_cpotrf h lib uplo n a lda info st, None)
         | _ \<Rightarrow> None)
    | ZPOTRF \<Rightarrow>
        (case args of [uplo, n, a, lda, info] \<Rightarrow>
            Some (accelerate_zpotrf h lib uplo n a lda info st, None)
         | _ \<Rightarrow> None)
    | SGESDD \<Rightarrow>
        (case args of [jobz, m, n, a, lda, s, u, ldu, vt, ldvt, work, lwork, iwork, info] \<Rightarrow>
            Some (accelerate_sgesdd h lib jobz m n a lda s u ldu vt ldvt work lwork iwork info st, None)
         | _ \<Rightarrow> None)
    | DGESDD \<Rightarrow>
        (case args of [jobz, m, n, a, lda, s, u, ldu, vt, ldvt, work, lwork, iwork, info] \<Rightarrow>
            Some (accelerate_dgesdd h lib jobz m n a lda s u ldu vt ldvt work lwork iwork info st, None)
         | _ \<Rightarrow> None)
    | CGESDD \<Rightarrow>
        (case args of [jobz, m, n, a, lda, s, u, ldu, vt, ldvt, work, lwork, rwork, iwork, info] \<Rightarrow>
            Some (accelerate_cgesdd h lib jobz m n a lda s u ldu vt ldvt work lwork rwork iwork info st, None)
         | _ \<Rightarrow> None)
    | ZGESDD \<Rightarrow>
        (case args of [jobz, m, n, a, lda, s, u, ldu, vt, ldvt, work, lwork, rwork, iwork, info] \<Rightarrow>
            Some (accelerate_zgesdd h lib jobz m n a lda s u ldu vt ldvt work lwork rwork iwork info st, None)
         | _ \<Rightarrow> None)
    | SPOTRS \<Rightarrow>
        (case args of [uplo, n, nrhs, a, lda, b, ldb, info] \<Rightarrow>
            Some (accelerate_spotrs h lib uplo n nrhs a lda b ldb info st, None)
         | _ \<Rightarrow> None)
    | DPOTRS \<Rightarrow>
        (case args of [uplo, n, nrhs, a, lda, b, ldb, info] \<Rightarrow>
            Some (accelerate_dpotrs h lib uplo n nrhs a lda b ldb info st, None)
         | _ \<Rightarrow> None)
    | CPOTRS \<Rightarrow>
        (case args of [uplo, n, nrhs, a, lda, b, ldb, info] \<Rightarrow>
            Some (accelerate_cpotrs h lib uplo n nrhs a lda b ldb info st, None)
         | _ \<Rightarrow> None)
    | ZPOTRS \<Rightarrow>
        (case args of [uplo, n, nrhs, a, lda, b, ldb, info] \<Rightarrow>
            Some (accelerate_zpotrs h lib uplo n nrhs a lda b ldb info st, None)
         | _ \<Rightarrow> None)
    | SPOTRI \<Rightarrow>
        (case args of [uplo, n, a, lda, info] \<Rightarrow>
            Some (accelerate_spotri h lib uplo n a lda info st, None)
         | _ \<Rightarrow> None)
    | DPOTRI \<Rightarrow>
        (case args of [uplo, n, a, lda, info] \<Rightarrow>
            Some (accelerate_dpotri h lib uplo n a lda info st, None)
         | _ \<Rightarrow> None)
    | CPOTRI \<Rightarrow>
        (case args of [uplo, n, a, lda, info] \<Rightarrow>
            Some (accelerate_cpotri h lib uplo n a lda info st, None)
         | _ \<Rightarrow> None)
    | ZPOTRI \<Rightarrow>
        (case args of [uplo, n, a, lda, info] \<Rightarrow>
            Some (accelerate_zpotri h lib uplo n a lda info st, None)
         | _ \<Rightarrow> None)
    | SCOPY \<Rightarrow>
        (case args of [n, sx, incx, sy, incy] \<Rightarrow>
            Some (accelerate_scopy h lib n sx incx sy incy st)
         | _ \<Rightarrow> None)
    | DCOPY \<Rightarrow>
        (case args of [n, sx, incx, sy, incy] \<Rightarrow>
            Some (accelerate_dcopy h lib n sx incx sy incy st)
         | _ \<Rightarrow> None)
    | CCOPY \<Rightarrow>
        (case args of [n, sx, incx, sy, incy] \<Rightarrow>
            Some (accelerate_ccopy h lib n sx incx sy incy st)
         | _ \<Rightarrow> None)
    | ZCOPY \<Rightarrow>
        (case args of [n, sx, incx, sy, incy] \<Rightarrow>
            Some (accelerate_zcopy h lib n sx incx sy incy st)
         | _ \<Rightarrow> None)
    | SDOT \<Rightarrow>
        (case args of [n, sx, incx, sy, incy] \<Rightarrow>
            Some (accelerate_sdot h lib n sx incx sy incy st)
         | _ \<Rightarrow> None)
    | DDOT \<Rightarrow>
        (case args of [n, sx, incx, sy, incy] \<Rightarrow>
            Some (accelerate_ddot h lib n sx incx sy incy st)
         | _ \<Rightarrow> None)
    | CDOTU \<Rightarrow>
        (case args of [ret, n, sx, incx, sy, incy] \<Rightarrow>
            Some (accelerate_cdotu h lib ret n sx incx sy incy st, None)
         | _ \<Rightarrow> None)
    | ZDOTU \<Rightarrow>
        (case args of [ret, n, sx, incx, sy, incy] \<Rightarrow>
            Some (accelerate_zdotu h lib ret n sx incx sy incy st, None)
         | _ \<Rightarrow> None)
    | CDOTC \<Rightarrow>
        (case args of [ret, n, sx, incx, sy, incy] \<Rightarrow>
            Some (accelerate_cdotc h lib ret n sx incx sy incy st, None)
         | _ \<Rightarrow> None)
    | ZDOTC \<Rightarrow>
        (case args of [ret, n, sx, incx, sy, incy] \<Rightarrow>
            Some (accelerate_zdotc h lib ret n sx incx sy incy st, None)
         | _ \<Rightarrow> None)
    | SGEMM \<Rightarrow>
        (case args of [transa, transb, m, n, k, alpha, a, lda, b, ldb, beta, c, ldc] \<Rightarrow>
            Some (accelerate_sgemm h lib transa transb m n k alpha a lda b ldb beta c ldc st, None)
         | _ \<Rightarrow> None)
    | DGEMM \<Rightarrow>
        (case args of [transa, transb, m, n, k, alpha, a, lda, b, ldb, beta, c, ldc] \<Rightarrow>
            Some (accelerate_dgemm h lib transa transb m n k alpha a lda b ldb beta c ldc st, None)
         | _ \<Rightarrow> None)
    | CGEMM \<Rightarrow>
        (case args of [transa, transb, m, n, k, alpha, a, lda, b, ldb, beta, c, ldc] \<Rightarrow>
            Some (accelerate_cgemm h lib transa transb m n k alpha a lda b ldb beta c ldc st, None)
         | _ \<Rightarrow> None)
    | ZGEMM \<Rightarrow>
        (case args of [transa, transb, m, n, k, alpha, a, lda, b, ldb, beta, c, ldc] \<Rightarrow>
            Some (accelerate_zgemm h lib transa transb m n k alpha a lda b ldb beta c ldc st, None)
         | _ \<Rightarrow> None))"

section \<open>A stand-in backend and sample hosts\<close>

text \<open>
  Stand-in entry points for running the wrappers on concrete inputs: the modern entry
  point writes the status 0 to the address of its last argument, the legacy one writes 7.
  Both return the sentinel of the routine's declared return type (32.0 for the two
  floating-point types).
\<close>

definition sentinel :: "ctype \<Rightarrow> cvalue option" where
  "sentinel t =
     (case t of
        C_fortran_int \<Rightarrow> Some (IntVal 5)
      | C_float \<Rightarrow> Some (FloatBits 0x42000000)
      | C_double \<Rightarrow> Some (DoubleBits 0x4040000000000000)
      | _ \<Rightarrow> None)"

definition stand_in :: backend where
  "stand_in abi r args m =
     (case abi of
        Modern \<Rightarrow> (m(last args := 0), sentinel (return_type r))
      | Legacy \<Rightarrow> (m(last args := 7), sentinel (return_type r)))"

text \<open>A second stand-in, for the routines whose first argument is an output pointer: the
  modern entry point writes the byte \<open>0x2A\<close> to the address of its first argument, the
  legacy one writes \<open>0x2B\<close>; both are declared \<^verbatim>\<open>void\<close>.\<close>

definition ret_stand_in :: backend where
  "ret_stand_in abi r args m =
     (case abi of
        Modern \<Rightarrow> (m(hd args := 0x2A), None)
      | Legacy \<Rightarrow> (m(hd args := 0x2B), None))"

definition macos_14 :: host where
  "macos_14 = \<lparr>os = MacOS, os_version = (14, 0, 0)\<rparr>"

definition macos_12 :: host where
  "macos_12 = \<lparr>os = MacOS, os_version = (12, 6, 0)\<rparr>"

definition macos_13_2 :: host where
  "macos_13_2 = \<lparr>os = MacOS, os_version = (13, 2, 1)\<rparr>"

definition fresh :: state where
  "fresh = \<lparr>mem = (\<lambda>_. 0xFF), calls = []\<rparr>"


section \<open>Auxiliary facts\<close>

lemmas wrapper_defs =
  accelerate_sgeev_def accelerate_dgeev_def accelerate_cgeev_def accelerate_zgeev_def
  accelerate_ssyevd_def accelerate_dsyevd_def accelerate_cheevd_def accelerate_zheevd_def
  accelerate_sgelsd_def accelerate_dgelsd_def accelerate_cgelsd_def accelerate_zgelsd_def
  accelerate_dgeqrf_def accelerate_zgeqrf_def accelerate_dorgqr_def accelerate_zungqr_def
  accelerate_sgesv_def accelerate_dgesv_def accelerate_cgesv_def accelerate_zgesv_def
  accelerate_sgetrf_def accelerate_dgetrf_def accelerate_cgetrf_def accelerate_zgetrf_def
  accelerate_spotrf_def accelerate_dpotrf_def accelerate_cpotrf_def accelerate_zpotrf_def
  accelerate_sgesdd_def accelerate_dgesdd_def accelerate_cgesdd_def accelerate_zgesdd_def
  accelerate_spotrs_def accelerate_dpotrs_def accelerate_cpotrs_def accelerate_zpotrs_def
  accelerate_spotri_def accelerate_dpotri_def accelerate_cpotri_def accelerate_zpotri_def
  accelerate_scopy_def accelerate_dcopy_def accelerate_ccopy_def accelerate_zcopy_def
  accelerate_sdot_def accelerate_ddot_def accelerate_cdotu_def accelerate_zdotu_def
  accelerate_cdotc_def accelerate_zdotc_def accelerate_sgemm_def accelerate_dgemm_def
  accelerate_cgemm_def accelerate_zgemm_def

lemma mem_call_stmt:
  "mem (call_stmt lib abi r args st) = fst (lib abi r args (mem st))"
  by (simp add: call_stmt_def call_def Let_def)

lemma calls_call_stmt:
  "calls (call_stmt lib abi r args st) = calls st @ [(abi, r, args)]"
  by (simp add: call_stmt_def call_def Let_def)

text \<open>Each wrapper, called through \<open>invoke\<close>, is one discarded call of the entry point
  that the availability check selects; the argument vector is accepted exactly when it has
  the length of the parameter list.\<close>

lemma invoke_unfold:
  "invoke h lib r args st =
     (if length args = arity r
      then Some (call_stmt lib (if builtin_available (13, 3, 0) h then Modern else Legacy)
                   r args st, None)
      else None)"
  by (cases r;
      simp add: invoke_def arity_def params_def wrapper_defs end_without_return_def
           split: list.splits)

lemma all_routines_complete: "set all_routines = UNIV"
proof -
  have "r \<in> set all_routines" for r
    by (cases r; simp add: all_routines_def)
  then show ?thesis by blast
qed

lemma macos_threshold:
  "builtin_available (13, 3, 0) \<lparr>os = MacOS, os_version = (major, minor, patch)\<rparr>
     = (13 < major \<or> (major = 13 \<and> 3 \<le> minor))"
  by (auto simp: builtin_available_def)

lemma arity_SGESV: "arity SGESV = 8"
  by (simp add: arity_def params_def)

lemma arity_SGETRF: "arity SGETRF = 6"
  by (simp add: arity_def params_def)

lemma arity_ZGEMM: "arity ZGEMM = 13"
  by (simp add: arity_def params_def)

lemma available_macos_14: "builtin_available (13, 3, 0) macos_14"
  by (simp add: macos_14_def builtin_available_def)

lemma unavailable_macos_12: "\<not> builtin_available (13, 3, 0) macos_12"
  by (simp add: macos_12_def builtin_available_def)

text \<open>The scenario of two stand-in entry points for one routine: switching the host
  between calls switches the status the caller observes at \<^verbatim>\<open>info\<close>.\<close>

lemma sgesv_status_follows_host:
  "mem (accelerate_sgesv macos_12 stand_in 100 104 200 108 300 400 112 116 fresh) 116 = 7 \<and>
   mem (accelerate_sgesv macos_14 stand_in 100 104 200 108 300 400 112 116 fresh) 116 = 0 \<and>
   mem (accelerate_sgesv macos_14 stand_in 100 104 200 108 300 400 112 116 fresh) 112 = 0xFF"
  by (simp add: accelerate_sgesv_def available_macos_14 unavailable_macos_12
        mem_call_stmt stand_in_def fresh_def)

section \<open>Dispatch\<close>

text \<open>
  C1. For every wrapped routine, one call evaluates the availability check
  \<^verbatim>\<open>__builtin_available(macos 13.3, *)\<close>. When it holds, the modern entry point of
  that routine is invoked with the caller's argument vector, unmodified and in the same
  order: it is the one entry point logged, and the memory after the call is the memory
  that this entry point, applied to the caller's arguments and the caller's memory, left.
  When the check does not hold, the same is true of the legacy entry point.
\<close>

theorem dispatch_forwards_arguments:
  "length args = arity r \<Longrightarrow>
     (builtin_available (13, 3, 0) h \<longrightarrow>
        (\<exists>st' v. invoke h lib r args st = Some (st', v) \<and>
                  calls st' = calls st @ [(Modern, r, args)] \<and>
                  mem st' = fst (lib Modern r args (mem st)))) \<and>
     (\<not> builtin_available (13, 3, 0) h \<longrightarrow>
        (\<exists>st' v. invoke h lib r args st = Some (st', v) \<and>
                  calls st' = calls st @ [(Legacy, r, args)] \<and>
                  mem st' = fst (lib Legacy r args (mem st))))"
  by (simp add: invoke_unfold calls_call_stmt mem_call_stmt)

theorem dispatch_forwards_arguments_witness:
  "length [100, 104, 108, 200, 112, 300, 116, 120, 400, 124, 128, 500, 132] = arity ZGEMM \<and>
   builtin_available (13, 3, 0) macos_14 \<and>
   \<not> builtin_available (13, 3, 0) macos_12 \<and>
   (\<exists>st' v. invoke macos_14 stand_in ZGEMM
               [100, 104, 108, 200, 112, 300, 116, 120, 400, 124, 128, 500, 132] fresh
               = Some (st', v) \<and>
             calls st' = calls fresh @ [(Modern, ZGEMM,
               [100, 104, 108, 200, 112, 300, 116, 120, 400, 124, 128, 500, 132])] \<and>
             mem st' = fst (stand_in Modern ZGEMM
               [100, 104, 108, 200, 112, 300, 116, 120, 400, 124, 128, 500, 132]
               (mem fresh)) \<and>
             mem st' 132 = 0) \<and>
   (\<exists>st' v. invoke macos_12 stand_in ZGEMM
               [100, 104, 108, 200, 112, 300, 116, 120, 400, 124, 128, 500, 132] fresh
               = Some (st', v) \<and>
             calls st' = calls fresh @ [(Legacy, ZGEMM,
               [100, 104, 108, 200, 112, 300, 116, 120, 400, 124, 128, 500, 132])] \<and>
             mem st' = fst (stand_in Legacy ZGEMM
               [100, 104, 108, 200, 112, 300, 116, 120, 400, 124, 128, 500, 132]
               (mem fresh)) \<and>
             mem st' 132 = 7)"
proof -
  have len:
    "length [100, 104, 108, 200, 112, 300, 116, 120, 400, 124, 128, 500, 132] = arity ZGEMM"
    by (simp add: arity_ZGEMM)
  have new: "builtin_available (13, 3, 0) macos_14"
    by (simp add: available_macos_14)
  have old: "\<not> builtin_available (13, 3, 0) macos_12"
    by (simp add: unavailable_macos_12)
  have at_modern:
    "fst (stand_in Modern ZGEMM
       [100, 104, 108, 200, 112, 300, 116, 120, 400, 124, 128, 500, 132] (mem fresh)) 132 = 0"
    by (simp add: stand_in_def)
  have at_legacy:
    "fst (stand_in Legacy ZGEMM
       [100, 104, 108, 200, 112, 300, 116, 120, 400, 124, 128, 500, 132] (mem fresh)) 132 = 7"
    by (simp add: stand_in_def)
  from dispatch_forwards_arguments [OF len, of macos_14 stand_in fresh] new at_modern
  have modern:
    "\<exists>st' v. invoke macos_14 stand_in ZGEMM
               [100, 104, 108, 200, 112, 300, 116, 120, 400, 124, 128, 500, 132] fresh
               = Some (st', v) \<and>
             calls st' = calls fresh @ [(Modern, ZGEMM,
               [100, 104, 108, 200, 112, 300, 116, 120, 400, 124, 128, 500, 132])] \<and>
             mem st' = fst (stand_in Modern ZGEMM
               [100, 104, 108, 200, 112, 300, 116, 120, 400, 124, 128, 500, 132]
               (mem fresh)) \<and>
             mem st' 132 = 0"
    by auto
  from dispatch_forwards_arguments [OF len, of macos_12 stand_in fresh] old at_legacy
  have legacy:
    "\<exists>st' v. invoke macos_12 stand_in ZGEMM
               [100, 104, 108, 200, 112, 300, 116, 120, 400, 124, 128, 500, 132] fresh
               = Some (st', v) \<and>
             calls st' = calls fresh @ [(Legacy, ZGEMM,
               [100, 104, 108, 200, 112, 300, 116, 120, 400, 124, 128, 500, 132])] \<and>
             mem st' = fst (stand_in Legacy ZGEMM
               [100, 104, 108, 200, 112, 300, 116, 120, 400, 124, 128, 500, 132]
               (mem fresh)) \<and>
             mem st' 132 = 7"
    by auto
  from len new old modern legacy show ?thesis by (intro conjI)
qed

text \<open>
  C2. The claim: what the selected entry point returns reaches the caller unchanged, and
  for a wrapper declared with a return type other than \<^verbatim>\<open>void\<close> the value the
  caller receives is the value the entry point returned. The body of
  \<^verbatim>\<open>accelerate_sdot\<close> is the expression statement \<^verbatim>\<open>sdot_(n, sx, incx, sy, incy);\<close>
  with no \<^verbatim>\<open>return\<close>: on a macOS 14 host the stand-in \<^verbatim>\<open>sdot_\<close> returns the
  bits of 32.0, and the wrapper hands no value to its caller.
\<close>

theorem sdot_return_value_dropped:
  "snd (stand_in Modern SDOT [100, 200, 104, 300, 108] (mem fresh))
     = Some (FloatBits 0x42000000) \<and>
   calls (fst (accelerate_sdot macos_14 stand_in 100 200 104 300 108 fresh))
     = [(Modern, SDOT, [100, 200, 104, 300, 108])] \<and>
   snd (accelerate_sdot macos_14 stand_in 100 200 104 300 108 fresh) = None"
  by (simp add: accelerate_sdot_def end_without_return_def available_macos_14
        calls_call_stmt stand_in_def sentinel_def return_type_def fresh_def)

text \<open>
  C3. For any single call of any wrapped routine exactly one entry point runs: the log of
  entry point invocations grows by one entry, which is neither absent nor followed by a
  second one, and the memory the caller gets back is the memory that this one entry point
  left, not a combination of two runs.
\<close>

theorem exactly_one_entry_point_runs:
  "length args = arity r \<Longrightarrow>
     \<exists>st' v abi.
       invoke h lib r args st = Some (st', v) \<and>
       calls st' = calls st @ [(abi, r, args)] \<and>
       length (calls st') = Suc (length (calls st)) \<and>
       length (filter (\<lambda>c. fst c = Modern) (drop (length (calls st)) (calls st'))) +
       length (filter (\<lambda>c. fst c = Legacy) (drop (length (calls st)) (calls st'))) = 1 \<and>
       mem st' = fst (lib abi r args (mem st))"
  by (simp add: invoke_unfold calls_call_stmt mem_call_stmt)

theorem exactly_one_entry_point_runs_witness:
  "length [100, 104, 200, 108, 300, 400, 112, 116] = arity SGESV \<and>
   (\<exists>st' v abi.
       invoke macos_12 stand_in SGESV [100, 104, 200, 108, 300, 400, 112, 116] fresh
         = Some (st', v) \<and>
       calls st' = calls fresh @ [(abi, SGESV, [100, 104, 200, 108, 300, 400, 112, 116])] \<and>
       length (calls st') = Suc (length (calls fresh)) \<and>
       length (filter (\<lambda>c. fst c = Modern) (drop (length (calls fresh)) (calls st'))) +
       length (filter (\<lambda>c. fst c = Legacy) (drop (length (calls fresh)) (calls st'))) = 1 \<and>
       mem st' = fst (stand_in abi SGESV [100, 104, 200, 108, 300, 400, 112, 116] (mem fresh)))"
proof -
  have len: "length [100, 104, 200, 108, 300, 400, 112, 116] = arity SGESV"
    by (simp add: arity_SGESV)
  from len exactly_one_entry_point_runs [OF len, of macos_12 stand_in fresh]
  show ?thesis by (rule conjI)
qed

text \<open>
  C4. All wrappers gate on the same fixed threshold, macOS 13.3: under one host, any two
  wrapped routines select the same kind of entry point, and that kind is the modern one
  exactly when \<^verbatim>\<open>__builtin_available(macos 13.3, *)\<close> holds, whichever the routines.
\<close>

theorem single_threshold:
  "length args1 = arity r1 \<Longrightarrow> length args2 = arity r2 \<Longrightarrow>
     \<exists>abi st1' v1 st2' v2.
       invoke h lib1 r1 args1 st1 = Some (st1', v1) \<and>
       invoke h lib2 r2 args2 st2 = Some (st2', v2) \<and>
       calls st1' = calls st1 @ [(abi, r1, args1)] \<and>
       calls st2' = calls st2 @ [(abi, r2, args2)] \<and>
       (abi = Modern) = builtin_available (13, 3, 0) h"
  by (simp add: invoke_unfold calls_call_stmt)

theorem single_threshold_witness:
  "length [100, 104, 200, 108, 300, 400, 112, 116] = arity SGESV \<and>
   length [100, 104, 108, 200, 112, 300, 116, 120, 400, 124, 128, 500, 132] = arity ZGEMM \<and>
   (\<exists>abi st1' v1 st2' v2.
       invoke macos_12 stand_in SGESV [100, 104, 200, 108, 300, 400, 112, 116] fresh
         = Some (st1', v1) \<and>
       invoke macos_12 stand_in ZGEMM
         [100, 104, 108, 200, 112, 300, 116, 120, 400, 124, 128, 500, 132] fresh
         = Some (st2', v2) \<and>
       calls st1' = calls fresh @ [(abi, SGESV, [100, 104, 200, 108, 300, 400, 112, 116])] \<and>
       calls st2' = calls fresh @ [(abi, ZGEMM,
         [100, 104, 108, 200, 112, 300, 116, 120, 400, 124, 128, 500, 132])] \<and>
       (abi = Modern) = builtin_available (13, 3, 0) macos_12)"
proof -
  have len1: "length [100, 104, 200, 108, 300, 400, 112, 116] = arity SGESV"
    by (simp add: arity_SGESV)
  have len2:
    "length [100, 104, 108, 200, 112, 300, 116, 120, 400, 124, 128, 500, 132] = arity ZGEMM"
    by (simp add: arity_ZGEMM)
  from len1 len2 single_threshold [OF len1 len2, of macos_12 stand_in fresh stand_in fresh]
  show ?thesis by (intro conjI)
qed

text \<open>
  C5. Dispatch is deterministic and does not depend on the arguments: two calls of the
  same wrapped routine under hosts on which the availability check has the same value
  select the same kind of entry point, whatever the argument vectors, the contents of
  memory and the calls made before.
\<close>

theorem dispatch_independent_of_arguments:
  "length args1 = arity r \<Longrightarrow> length args2 = arity r \<Longrightarrow>
   builtin_available (13, 3, 0) h1 = builtin_available (13, 3, 0) h2 \<Longrightarrow>
     \<exists>abi st1' v1 st2' v2.
       invoke h1 lib1 r args1 st1 = Some (st1', v1) \<and>
       invoke h2 lib2 r args2 st2 = Some (st2', v2) \<and>
       calls st1' = calls st1 @ [(abi, r, args1)] \<and>
       calls st2' = calls st2 @ [(abi, r, args2)]"
  by (simp add: invoke_unfold calls_call_stmt)

theorem dispatch_independent_of_arguments_witness:
  "length [100, 104, 200, 108, 300, 400, 112, 116] = arity SGESV \<and>
   length [8, 16, 24, 32, 40, 48, 56, 64] = arity SGESV \<and>
   builtin_available (13, 3, 0) macos_12 = builtin_available (13, 3, 0) macos_13_2 \<and>
   (\<exists>abi st1' v1 st2' v2.
       invoke macos_12 stand_in SGESV [100, 104, 200, 108, 300, 400, 112, 116] fresh
         = Some (st1', v1) \<and>
       invoke macos_13_2 stand_in SGESV [8, 16, 24, 32, 40, 48, 56, 64]
           (fresh\<lparr>mem := (\<lambda>_. 0)\<rparr>)
         = Some (st2', v2) \<and>
       calls st1' = calls fresh @ [(abi, SGESV, [100, 104, 200, 108, 300, 400, 112, 116])] \<and>
       calls st2' = calls (fresh\<lparr>mem := (\<lambda>_. 0)\<rparr>)
                      @ [(abi, SGESV, [8, 16, 24, 32, 40, 48, 56, 64])])"
proof -
  have len1: "length [100, 104, 200, 108, 300, 400, 112, 116] = arity SGESV"
    by (simp add: arity_SGESV)
  have len2: "length [8, 16, 24, 32, 40, 48, 56, 64] = arity SGESV"
    by (simp add: arity_SGESV)
  have same: "builtin_available (13, 3, 0) macos_12 = builtin_available (13, 3, 0) macos_13_2"
    by (simp add: macos_12_def macos_13_2_def builtin_available_def)
  from len1 len2 same
    dispatch_independent_of_arguments
      [OF len1 len2 same, of stand_in fresh stand_in "fresh\<lparr>mem := (\<lambda>_. 0)\<rparr>"]
  show ?thesis by (intro conjI)
qed

text \<open>
  C6. The routing layer cannot fail and does not touch the status: a call with a
  well-formed argument vector always completes, whatever the memory holds, and every byte
  the caller observes afterwards, the status output included, is the byte the selected
  entry point left there. A non-zero status is therefore one the entry point wrote.
\<close>

theorem status_passes_through:
  "length args = arity r \<Longrightarrow>
     \<exists>st' v abi.
       invoke h lib r args st = Some (st', v) \<and>
       last (calls st') = (abi, r, args) \<and>
       (\<forall>p. mem st' p = fst (lib abi r args (mem st)) p)"
  by (simp add: invoke_unfold calls_call_stmt mem_call_stmt)

theorem status_passes_through_witness:
  "length [100, 104, 200, 108, 300, 400, 112, 116] = arity SGESV \<and>
   (\<exists>st' v abi.
       invoke macos_12 stand_in SGESV [100, 104, 200, 108, 300, 400, 112, 116] fresh
         = Some (st', v) \<and>
       last (calls st') = (abi, SGESV, [100, 104, 200, 108, 300, 400, 112, 116]) \<and>
       (\<forall>p. mem st' p =
            fst (stand_in abi SGESV [100, 104, 200, 108, 300, 400, 112, 116] (mem fresh)) p))"
proof -
  have len: "length [100, 104, 200, 108, 300, 400, 112, 116] = arity SGESV"
    by (simp add: arity_SGESV)
  from len status_passes_through [OF len, of macos_12 stand_in fresh]
  show ?thesis by (rule conjI)
qed

text \<open>
  C7. Dispatch is always resolvable, and the legacy branch is the fallback: every call
  with a well-formed argument vector runs an entry point, and whenever the availability
  check evaluates to false it is the legacy entry point, with the caller's arguments.
\<close>

theorem legacy_is_the_fallback:
  "length args = arity r \<Longrightarrow>
     (\<exists>abi st' v. invoke h lib r args st = Some (st', v) \<and>
                  calls st' = calls st @ [(abi, r, args)]) \<and>
     (\<not> builtin_available (13, 3, 0) h \<longrightarrow>
        (\<exists>st' v. invoke h lib r args st = Some (st', v) \<and>
                  calls st' = calls st @ [(Legacy, r, args)] \<and>
                  mem st' = fst (lib Legacy r args (mem st))))"
  by (simp add: invoke_unfold calls_call_stmt mem_call_stmt)

theorem legacy_is_the_fallback_witness:
  "length [100, 104, 200, 108, 300, 116] = arity SGETRF \<and>
   \<not> builtin_available (13, 3, 0) macos_13_2 \<and>
   (\<exists>st' v. invoke macos_13_2 stand_in SGETRF [100, 104, 200, 108, 300, 116] fresh
               = Some (st', v) \<and>
             calls st' = calls fresh @ [(Legacy, SGETRF, [100, 104, 200, 108, 300, 116])] \<and>
             mem st' = fst (stand_in Legacy SGETRF [100, 104, 200, 108, 300, 116] (mem fresh)))"
proof -
  have len: "length [100, 104, 200, 108, 300, 116] = arity SGETRF"
    by (simp add: arity_SGETRF)
  have old: "\<not> builtin_available (13, 3, 0) macos_13_2"
    by (simp add: macos_13_2_def builtin_available_def)
  from legacy_is_the_fallback [OF len, of macos_13_2 stand_in fresh] old
  have "\<exists>st' v. invoke macos_13_2 stand_in SGETRF [100, 104, 200, 108, 300, 116] fresh
               = Some (st', v) \<and>
             calls st' = calls fresh @ [(Legacy, SGETRF, [100, 104, 200, 108, 300, 116])] \<and>
             mem st' = fst (stand_in Legacy SGETRF [100, 104, 200, 108, 300, 116] (mem fresh))"
    by blast
  with len old show ?thesis by (intro conjI)
qed

text \<open>
  C8. The routing layer is stateless and writes nothing itself: the memory handed to the
  selected entry point is the caller's memory as it is, the memory the caller gets back is
  the one the entry point left, and the availability check is evaluated anew at each
  call, so the second of two consecutive calls is routed by the host it runs on and keeps
  nothing from the first.
\<close>

theorem router_is_stateless:
  "length args1 = arity r1 \<Longrightarrow> length args2 = arity r2 \<Longrightarrow>
     \<exists>st1 v1 st2 v2.
       invoke h1 lib r1 args1 st = Some (st1, v1) \<and>
       invoke h2 lib r2 args2 st1 = Some (st2, v2) \<and>
       mem st1 =
         fst (lib (if builtin_available (13, 3, 0) h1 then Modern else Legacy)
                r1 args1 (mem st)) \<and>
       mem st2 =
         fst (lib (if builtin_available (13, 3, 0) h2 then Modern else Legacy)
                r2 args2 (mem st1)) \<and>
       calls st2 = calls st @
         [(if builtin_available (13, 3, 0) h1 then Modern else Legacy, r1, args1),
          (if builtin_available (13, 3, 0) h2 then Modern else Legacy, r2, args2)]"
  by (simp add: invoke_unfold calls_call_stmt mem_call_stmt)

theorem router_is_stateless_witness:
  "length [100, 104, 200, 108, 300, 400, 112, 116] = arity SGESV \<and>
   length [100, 104, 200, 108, 300, 116] = arity SGETRF \<and>
   (\<exists>st1 v1 st2 v2.
       invoke macos_12 stand_in SGESV [100, 104, 200, 108, 300, 400, 112, 116] fresh
         = Some (st1, v1) \<and>
       invoke macos_14 stand_in SGETRF [100, 104, 200, 108, 300, 116] st1 = Some (st2, v2) \<and>
       mem st1 =
         fst (stand_in (if builtin_available (13, 3, 0) macos_12 then Modern else Legacy)
                SGESV [100, 104, 200, 108, 300, 400, 112, 116] (mem fresh)) \<and>
       mem st2 =
         fst (stand_in (if builtin_available (13, 3, 0) macos_14 then Modern else Legacy)
                SGETRF [100, 104, 200, 108, 300, 116] (mem st1)) \<and>
       calls st2 = calls fresh @
         [(if builtin_available (13, 3, 0) macos_12 then Modern else Legacy,
           SGESV, [100, 104, 200, 108, 300, 400, 112, 116]),
          (if builtin_available (13, 3, 0) macos_14 then Modern else Legacy,
           SGETRF, [100, 104, 200, 108, 300, 116])])"
proof -
  have len1: "length [100, 104, 200, 108, 300, 400, 112, 116] = arity SGESV"
    by (simp add: arity_SGESV)
  have len2: "length [100, 104, 200, 108, 300, 116] = arity SGETRF"
    by (simp add: arity_SGETRF)
  from len1 len2 router_is_stateless [OF len1 len2, of macos_12 stand_in fresh macos_14]
  show ?thesis by (intro conjI)
qed

section \<open>The interface\<close>

text \<open>
  C9. The four complex dot-product wrappers \<^verbatim>\<open>accelerate_cdotu\<close>,
  \<^verbatim>\<open>accelerate_zdotu\<close>, \<^verbatim>\<open>accelerate_cdotc\<close> and \<^verbatim>\<open>accelerate_zdotc\<close> are
  declared \<^verbatim>\<open>void\<close>, and their first parameter is the output pointer \<^verbatim>\<open>ret\<close>,
  ahead of the length \<^verbatim>\<open>n\<close> and the vector arguments. A call hands the caller no
  value: all it leaves is the memory that the selected entry point, which received
  \<^verbatim>\<open>ret\<close> as its first argument, left. With an entry point that writes its result
  through its first argument, the caller finds that result at \<^verbatim>\<open>ret\<close>.
\<close>

theorem complex_dot_result_through_ret:
  "return_type CDOTU = C_void \<and> return_type ZDOTU = C_void \<and>
   return_type CDOTC = C_void \<and> return_type ZDOTC = C_void \<and>
   params CDOTU =
     [(C_ptr C_f2c_complex, ''ret''), (C_ptr C_fortran_int, ''n''),
      (C_ptr C_f2c_complex, ''sx''), (C_ptr C_fortran_int, ''incx''),
      (C_ptr C_f2c_complex, ''sy''), (C_ptr C_fortran_int, ''incy'')] \<and>
   params CDOTC = params CDOTU \<and>
   params ZDOTU =
     [(C_ptr C_f2c_doublecomplex, ''ret''), (C_ptr C_fortran_int, ''n''),
      (C_ptr C_f2c_doublecomplex, ''sx''), (C_ptr C_fortran_int, ''incx''),
      (C_ptr C_f2c_doublecomplex, ''sy''), (C_ptr C_fortran_int, ''incy'')] \<and>
   params ZDOTC = params ZDOTU \<and>
   invoke h lib CDOTU [ret, n, sx, incx, sy, incy] st =
     Some (accelerate_cdotu h lib ret n sx incx sy incy st, None) \<and>
   mem (accelerate_cdotu h lib ret n sx incx sy incy st) =
     fst (lib (if builtin_available (13, 3, 0) h then Modern else Legacy)
            CDOTU [ret, n, sx, incx, sy, incy] (mem st)) \<and>
   calls (accelerate_cdotu h lib ret n sx incx sy incy st) =
     calls st @ [(if builtin_available (13, 3, 0) h then Modern else Legacy,
                  CDOTU, [ret, n, sx, incx, sy, incy])] \<and>
   invoke h lib ZDOTU [ret, n, sx, incx, sy, incy] st =
     Some (accelerate_zdotu h lib ret n sx incx sy incy st, None) \<and>
   mem (accelerate_zdotu h lib ret n sx incx sy incy st) =
     fst (lib (if builtin_available (13, 3, 0) h then Modern else Legacy)
            ZDOTU [ret, n, sx, incx, sy, incy] (mem st)) \<and>
   calls (accelerate_zdotu h lib ret n sx incx sy incy st) =
     calls st @ [(if builtin_available (13, 3, 0) h then Modern else Legacy,
                  ZDOTU, [ret, n, sx, incx, sy, incy])] \<and>
   invoke h lib CDOTC [ret, n, sx, incx, sy, incy] st =
     Some (accelerate_cdotc h lib ret n sx incx sy incy st, None) \<and>
   mem (accelerate_cdotc h lib ret n sx incx sy incy st) =
     fst (lib (if builtin_available (13, 3, 0) h then Modern else Legacy)
            CDOTC [ret, n, sx, incx, sy, incy] (mem st)) \<and>
   calls (accelerate_cdotc h lib ret n sx incx sy incy st) =
     calls st @ [(if builtin_available (13, 3, 0) h then Modern else Legacy,
                  CDOTC, [ret, n, sx, incx, sy, incy])] \<and>
   invoke h lib ZDOTC [ret, n, sx, incx, sy, incy] st =
     Some (accelerate_zdotc h lib ret n sx incx sy incy st, None) \<and>
   mem (accelerate_zdotc h lib ret n sx incx sy incy st) =
     fst (lib (if builtin_available (13, 3, 0) h then Modern else Legacy)
            ZDOTC [ret, n, sx, incx, sy, incy] (mem st)) \<and>
   calls (accelerate_zdotc h lib ret n sx incx sy incy st) =
     calls st @ [(if builtin_available (13, 3, 0) h then Modern else Legacy,
                  ZDOTC, [ret, n, sx, incx, sy, incy])] \<and>
   mem (accelerate_cdotu macos_14 ret_stand_in 100 104 200 108 300 112 fresh) 100 = 0x2A \<and>
   mem (accelerate_cdotu macos_12 ret_stand_in 100 104 200 108 300 112 fresh) 100 = 0x2B \<and>
   mem (accelerate_zdotu macos_14 ret_stand_in 100 104 200 108 300 112 fresh) 100 = 0x2A \<and>
   mem (accelerate_zdotu macos_12 ret_stand_in 100 104 200 108 300 112 fresh) 100 = 0x2B \<and>
   mem (accelerate_cdotc macos_14 ret_stand_in 100 104 200 108 300 112 fresh) 100 = 0x2A \<and>
   mem (accelerate_cdotc macos_12 ret_stand_in 100 104 200 108 300 112 fresh) 100 = 0x2B \<and>
   mem (accelerate_zdotc macos_14 ret_stand_in 100 104 200 108 300 112 fresh) 100 = 0x2A \<and>
   mem (accelerate_zdotc macos_12 ret_stand_in 100 104 200 108 300 112 fresh) 100 = 0x2B"
proof -
  have sig:
    "return_type CDOTU = C_void \<and> return_type ZDOTU = C_void \<and>
     return_type CDOTC = C_void \<and> return_type ZDOTC = C_void \<and>
     params CDOTU =
       [(C_ptr C_f2c_complex, ''ret''), (C_ptr C_fortran_int, ''n''),
        (C_ptr C_f2c_complex, ''sx''), (C_ptr C_fortran_int, ''incx''),
        (C_ptr C_f2c_complex, ''sy''), (C_ptr C_fortran_int, ''incy'')] \<and>
     params CDOTC = params CDOTU \<and>
     params ZDOTU =
       [(C_ptr C_f2c_doublecomplex, ''ret''), (C_ptr C_fortran_int, ''n''),
        (C_ptr C_f2c_doublecomplex, ''sx''), (C_ptr C_fortran_int, ''incx''),
        (C_ptr C_f2c_doublecomplex, ''sy''), (C_ptr C_fortran_int, ''incy'')] \<and>
     params ZDOTC = params ZDOTU"
    by (simp add: return_type_def params_def)
  have cdotu:
    "invoke h lib CDOTU [ret, n, sx, incx, sy, incy] st =
     Some (accelerate_cdotu h lib ret n sx incx sy incy st, None) \<and>
   mem (accelerate_cdotu h lib ret n sx incx sy incy st) =
     fst (lib (if builtin_available (13, 3, 0) h then Modern else Legacy)
            CDOTU [ret, n, sx, incx, sy, incy] (mem st)) \<and>
   calls (accelerate_cdotu h lib ret n sx incx sy incy st) =
     calls st @ [(if builtin_available (13, 3, 0) h then Modern else Legacy,
                  CDOTU, [ret, n, sx, incx, sy, incy])]"
    by (simp add: invoke_def accelerate_cdotu_def mem_call_stmt calls_call_stmt)
  have cdotu_at_ret:
    "mem (accelerate_cdotu macos_14 ret_stand_in 100 104 200 108 300 112 fresh) 100 = 0x2A \<and>
   mem (accelerate_cdotu macos_12 ret_stand_in 100 104 200 108 300 112 fresh) 100 = 0x2B"
    by (simp add: accelerate_cdotu_def available_macos_14 unavailable_macos_12
          mem_call_stmt ret_stand_in_def fresh_def)
  have zdotu:
    "invoke h lib ZDOTU [ret, n, sx, incx, sy, incy] st =
     Some (accelerate_zdotu h lib ret n sx incx sy incy st, None) \<and>
   mem (accelerate_zdotu h lib ret n sx incx sy incy st) =
     fst (lib (if builtin_available (13, 3, 0) h then Modern else Legacy)
            ZDOTU [ret, n, sx, incx, sy, incy] (mem st)) \<and>
   calls (accelerate_zdotu h lib ret n sx incx sy incy st) =
     calls st @ [(if builtin_available (13, 3, 0) h then Modern else Legacy,
                  ZDOTU, [ret, n, sx, incx, sy, incy])]"
    by (simp add: invoke_def accelerate_zdotu_def mem_call_stmt calls_call_stmt)
  have zdotu_at_ret:
    "mem (accelerate_zdotu macos_14 ret_stand_in 100 104 200 108 300 112 fresh) 100 = 0x2A \<and>
   mem (accelerate_zdotu macos_12 ret_stand_in 100 104 200 108 300 112 fresh) 100 = 0x2B"
    by (simp add: accelerate_zdotu_def available_macos_14 unavailable_macos_12
          mem_call_stmt ret_stand_in_def fresh_def)
  have cdotc:
    "invoke h lib CDOTC [ret, n, sx, incx, sy, incy] st =
     Some (accelerate_cdotc h lib ret n sx incx sy incy st, None) \<and>
   mem (accelerate_cdotc h lib ret n sx incx sy incy st) =
     fst (lib (if builtin_available (13, 3, 0) h then Modern else Legacy)
            CDOTC [ret, n, sx, incx, sy, incy] (mem st)) \<and>
   calls (accelerate_cdotc h lib ret n sx incx sy incy st) =
     calls st @ [(if builtin_available (13, 3, 0) h then Modern else Legacy,
                  CDOTC, [ret, n, sx, incx, sy, incy])]"
    by (simp add: invoke_def accelerate_cdotc_def mem_call_stmt calls_call_stmt)
  have cdotc_at_ret:
    "mem (accelerate_cdotc macos_14 ret_stand_in 100 104 200 108 300 112 fresh) 100 = 0x2A \<and>
   mem (accelerate_cdotc macos_12 ret_stand_in 100 104 200 108 300 112 fresh) 100 = 0x2B"
    by (simp add: accelerate_cdotc_def available_macos_14 unavailable_macos_12
          mem_call_stmt ret_stand_in_def fresh_def)
  have zdotc:
    "invoke h lib ZDOTC [ret, n, sx, incx, sy, incy] st =
     Some (accelerate_zdotc h lib ret n sx incx sy incy st, None) \<and>
   mem (accelerate_zdotc h lib ret n sx incx sy incy st) =
     fst (lib (if builtin_available (13, 3, 0) h then Modern else Legacy)
            ZDOTC [ret, n, sx, incx, sy, incy] (mem st)) \<and>
   calls (accelerate_zdotc h lib ret n sx incx sy incy st) =
     calls st @ [(if builtin_available (13, 3, 0) h then Modern else Legacy,
                  ZDOTC, [ret, n, sx, incx, sy, incy])]"
    by (simp add: invoke_def accelerate_zdotc_def mem_call_stmt calls_call_stmt)
  have zdotc_at_ret:
    "mem (accelerate_zdotc macos_14 ret_stand_in 100 104 200 108 300 112 fresh) 100 = 0x2A \<and>
   mem (accelerate_zdotc macos_12 ret_stand_in 100 104 200 108 300 112 fresh) 100 = 0x2B"
    by (simp add: accelerate_zdotc_def available_macos_14 unavailable_macos_12
          mem_call_stmt ret_stand_in_def fresh_def)
  from sig cdotu zdotu cdotc zdotc cdotu_at_ret zdotu_at_ret cdotc_at_ret zdotc_at_ret
  show ?thesis by simp
qed

text \<open>
  C10. The QR family is exported in double precision only: among the exported functions,
  the \<^verbatim>\<open>geqrf\<close> wrappers are those of \<^verbatim>\<open>dgeqrf\<close> and \<^verbatim>\<open>zgeqrf\<close>, the
  \<^verbatim>\<open>orgqr\<close>/\<^verbatim>\<open>ungqr\<close> wrappers are those of \<^verbatim>\<open>dorgqr\<close> and \<^verbatim>\<open>zungqr\<close>,
  and no single-precision real or complex variant is exported.
\<close>

theorem qr_family_double_precision_only:
  "{f \<in> exported. \<exists>p. f = ''accelerate_'' @ p # ''geqrf''}
     = {''accelerate_dgeqrf'', ''accelerate_zgeqrf''} \<and>
   {f \<in> exported. \<exists>p. f = ''accelerate_'' @ p # ''orgqr'' \<or> f = ''accelerate_'' @ p # ''ungqr''}
     = {''accelerate_dorgqr'', ''accelerate_zungqr''} \<and>
   ''accelerate_sgeqrf'' \<notin> exported \<and> ''accelerate_cgeqrf'' \<notin> exported \<and>
   ''accelerate_sorgqr'' \<notin> exported \<and> ''accelerate_cungqr'' \<notin> exported"
  by (auto simp: exported_def all_routines_def wrapper_name_def routine_name_def)


end
